theory Spec2Isabelle
  imports Complex_Main
begin

section \<open>The phase looper hook (src/hooks/usePhaseLooper.ts)\<close>

text \<open>
  The hook keeps a React state cell of type \<open>PhaseLooperState\<close>, nine mutable refs, and
  talks to the browser's audio and media services. The model is one record, the
  \<open>controller\<close>, that holds the state cell, the state as of the last render (the value
  the closures of that render read), the refs, and the part of the browser that the hook
  drives: a heap of constructed objects, the connections of the audio graph, and the
  promises and recorder events that are still outstanding.

  The browser's constructors and node factories are taken to return; the calls that the
  source guards with \<open>try\<close> or that raise in a wrong state (\<open>stop\<close> on a source,
  \<open>start\<close> and \<open>stop\<close> on a recorder, the recorder's constructor, the awaited promises)
  have their failure as a branch. A status text is held as the bytes of its UTF-8
  encoding, which for an ASCII text are its characters; three status texts of the source
  contain a character outside ASCII (U+2026 twice, U+2019 once), written here as the
  three bytes of its encoding. The effect cleanup on unmount ends the hook's life and is
  not one of its operations.
\<close>

subsection \<open>Observable state and capability check\<close>

record PhaseLooperState =
  isSupported :: bool
  isEnabling :: bool
  isEnabled :: bool
  isRecording :: bool
  hasPhrase :: bool
  isPhasePlaying :: bool
  status :: string

text \<open>
  What the runtime exposes: the five tests of \<open>getInitialState\<close>, whether a new
  AudioContext starts suspended, and the value of \<open>currentTime\<close> at its n-th read.
\<close>

record platform =
  hasWindow :: bool
  hasAudioContext :: bool
  hasNavigator :: bool
  hasGetUserMedia :: bool
  hasMediaRecorder :: bool
  contextStartsSuspended :: bool
  currentTimeAt :: "nat \<Rightarrow> real"

definition getInitialState :: "platform \<Rightarrow> PhaseLooperState" where
  "getInitialState p =
     \<lparr> isSupported = (hasWindow p \<and> hasAudioContext p \<and> hasNavigator p \<and>
                      hasGetUserMedia p \<and> hasMediaRecorder p),
       isEnabling = False,
       isEnabled = False,
       isRecording = False,
       hasPhrase = False,
       isPhasePlaying = False,
       status = [] \<rparr>"

subsection \<open>Options\<close>

record UsePhaseLooperOptions =
  basePlaybackRate :: "real option"
  fastPlaybackRate :: "real option"
  gain :: "real option"
  panLeft :: "real option"
  panRight :: "real option"

text \<open>Destructuring with a default: \<open>const { x = d } = options\<close>.\<close>

definition orDefault :: "'a option \<Rightarrow> 'a \<Rightarrow> 'a" where
  "orDefault v d = (case v of None \<Rightarrow> d | Some x \<Rightarrow> x)"

subsection \<open>Browser objects\<close>

type_synonym handle = nat

datatype AudioContextState = Suspended | Running | Closed

datatype RecordingState = Inactive | Recording | Paused

text \<open>
  \<open>AudioBufferSourceNode buffer loop playbackRate startTime stopped\<close>;
  \<open>MediaStream live\<close>; \<open>MediaRecorder stream state\<close>; \<open>AudioBuffer d\<close> where \<open>d\<close> is the
  text of \<open>duration.toFixed(2)\<close>.
\<close>

datatype obj =
    AudioContext AudioContextState
  | MediaStream bool
  | MediaRecorder handle RecordingState
  | AudioBuffer string
  | AudioBufferSourceNode "handle option" bool real "real option" bool
  | StereoPannerNode real
  | GainNode real

text \<open>The input a node is connected to: another node, or \<open>audioCtx.destination\<close>.\<close>

datatype sink = Node handle | Destination handle

text \<open>
  What is outstanding: the two awaits of \<open>enable\<close>, the recorder's queued start and stop
  events, and the two awaits of \<open>recorder.onstop\<close> (with the blob size, and the context the
  decode was issued on).
\<close>

datatype task =
    AwaitResume handle
  | AwaitUserMedia
  | StartEvent
  | StopEvent
  | AwaitArrayBuffer nat
  | AwaitDecode handle nat

datatype error = InvalidStateError | TypeError

record controller =
  state :: PhaseLooperState
  snapshot :: PhaseLooperState
  audioCtxRef :: "handle option"
  streamRef :: "handle option"
  recorderRef :: "handle option"
  chunksRef :: "nat list"
  phraseBufferRef :: "handle option"
  source1Ref :: "handle option"
  source2Ref :: "handle option"
  gainRef :: "handle option"
  ignoreNextOnStopRef :: bool
  heap :: "handle \<Rightarrow> obj option"
  nextHandle :: handle
  conns :: "(handle \<times> sink) list"
  pending :: "task list"
  timeReads :: nat

text \<open>The hook at its first render: \<open>useState(getInitialState())\<close>, every ref empty.\<close>

definition usePhaseLooper :: "platform \<Rightarrow> controller" where
  "usePhaseLooper p =
     \<lparr> state = getInitialState p,
       snapshot = getInitialState p,
       audioCtxRef = None,
       streamRef = None,
       recorderRef = None,
       chunksRef = [],
       phraseBufferRef = None,
       source1Ref = None,
       source2Ref = None,
       gainRef = None,
       ignoreNextOnStopRef = False,
       heap = (\<lambda>h. None),
       nextHandle = 0,
       conns = [],
       pending = [],
       timeReads = 0 \<rparr>"

text \<open>
  \<open>setState\<close> with an updater, \<open>setState\<close> with a value, and a render, after which the
  closures and the caller see the cell's value.
\<close>

definition setState :: "(PhaseLooperState \<Rightarrow> PhaseLooperState) \<Rightarrow> controller \<Rightarrow> controller" where
  "setState f c = c\<lparr>state := f (state c)\<rparr>"

definition setStatus :: "string \<Rightarrow> controller \<Rightarrow> controller" where
  "setStatus s c = setState (\<lambda>prev. prev\<lparr>status := s\<rparr>) c"

definition render :: "controller \<Rightarrow> controller" where
  "render c = c\<lparr>snapshot := state c\<rparr>"

text \<open>
  The two characters outside ASCII in the status texts of the source, in UTF-8: the
  horizontal ellipsis U+2026 (lines 120 and 130) and the right single quotation mark
  U+2019 (line 248).
\<close>

definition ellipsis :: string where
  "ellipsis = [CHR 0xE2, CHR 0x80, CHR 0xA6]"

definition apostrophe :: string where
  "apostrophe = [CHR 0xE2, CHR 0x80, CHR 0x99]"

subsection \<open>Platform operations\<close>

definition alloc :: "obj \<Rightarrow> controller \<Rightarrow> handle \<times> controller" where
  "alloc x c =
     (nextHandle c, c\<lparr>heap := (heap c)(nextHandle c \<mapsto> x), nextHandle := Suc (nextHandle c)\<rparr>)"

definition contextState :: "controller \<Rightarrow> handle \<Rightarrow> AudioContextState option" where
  "contextState c a = (case heap c a of Some (AudioContext s) \<Rightarrow> Some s | _ \<Rightarrow> None)"

definition recorderState :: "controller \<Rightarrow> handle \<Rightarrow> RecordingState option" where
  "recorderState c r = (case heap c r of Some (MediaRecorder s st) \<Rightarrow> Some st | _ \<Rightarrow> None)"

text \<open>\<open>audioCtx.resume()\<close> fulfilled: a suspended context runs.\<close>

definition context_resumed :: "handle \<Rightarrow> controller \<Rightarrow> controller" where
  "context_resumed a c =
     (case heap c a of
        Some (AudioContext Suspended) \<Rightarrow> c\<lparr>heap := (heap c)(a \<mapsto> AudioContext Running)\<rparr>
      | _ \<Rightarrow> c)"

definition context_close :: "handle \<Rightarrow> controller \<Rightarrow> controller" where
  "context_close a c =
     (case heap c a of
        Some (AudioContext s) \<Rightarrow> c\<lparr>heap := (heap c)(a \<mapsto> AudioContext Closed)\<rparr>
      | _ \<Rightarrow> c)"

text \<open>\<open>stream.getTracks().forEach((t) => t.stop())\<close>.\<close>

definition stream_stopTracks :: "handle \<Rightarrow> controller \<Rightarrow> controller" where
  "stream_stopTracks s c =
     (case heap c s of
        Some (MediaStream live) \<Rightarrow> c\<lparr>heap := (heap c)(s \<mapsto> MediaStream False)\<rparr>
      | _ \<Rightarrow> c)"

text \<open>
  \<open>recorder.start()\<close> and \<open>recorder.stop()\<close>: the state changes at once, the event is
  queued; a recorder in the wrong state raises.
\<close>

definition recorder_start :: "handle \<Rightarrow> controller \<Rightarrow> error + controller" where
  "recorder_start r c =
     (case heap c r of
        Some (MediaRecorder s Inactive) \<Rightarrow>
          Inr (c\<lparr>heap := (heap c)(r \<mapsto> MediaRecorder s Recording),
                 pending := pending c @ [StartEvent]\<rparr>)
      | _ \<Rightarrow> Inl InvalidStateError)"

definition recorder_stop :: "handle \<Rightarrow> controller \<Rightarrow> error + controller" where
  "recorder_stop r c =
     (case heap c r of
        Some (MediaRecorder s Recording) \<Rightarrow>
          Inr (c\<lparr>heap := (heap c)(r \<mapsto> MediaRecorder s Inactive),
                 pending := pending c @ [StopEvent]\<rparr>)
      | Some (MediaRecorder s Paused) \<Rightarrow>
          Inr (c\<lparr>heap := (heap c)(r \<mapsto> MediaRecorder s Inactive),
                 pending := pending c @ [StopEvent]\<rparr>)
      | _ \<Rightarrow> Inl InvalidStateError)"

text \<open>
  \<open>source.stop()\<close> raises on a source that was never started or is already stopped;
  \<open>node.disconnect()\<close> removes the node's outgoing connections and never raises.
\<close>

definition source_stop :: "handle \<Rightarrow> controller \<Rightarrow> error + controller" where
  "source_stop n c =
     (case heap c n of
        Some (AudioBufferSourceNode b l r (Some t) False) \<Rightarrow>
          Inr (c\<lparr>heap := (heap c)(n \<mapsto> AudioBufferSourceNode b l r (Some t) True)\<rparr>)
      | _ \<Rightarrow> Inl InvalidStateError)"

definition node_disconnect :: "handle \<Rightarrow> controller \<Rightarrow> controller" where
  "node_disconnect n c = c\<lparr>conns := filter (\<lambda>e. fst e \<noteq> n) (conns c)\<rparr>"

definition node_connect :: "handle \<Rightarrow> sink \<Rightarrow> controller \<Rightarrow> controller" where
  "node_connect n d c = c\<lparr>conns := List.insert (n, d) (conns c)\<rparr>"

text \<open>Assignments to the fields of a source node, and \<open>source.start(when)\<close>.\<close>

fun with_buffer :: "handle \<Rightarrow> obj \<Rightarrow> obj" where
  "with_buffer b (AudioBufferSourceNode b0 l r t s) = AudioBufferSourceNode (Some b) l r t s"
| "with_buffer b x = x"

fun with_loop :: "bool \<Rightarrow> obj \<Rightarrow> obj" where
  "with_loop l (AudioBufferSourceNode b l0 r t s) = AudioBufferSourceNode b l r t s"
| "with_loop l x = x"

fun with_playbackRate :: "real \<Rightarrow> obj \<Rightarrow> obj" where
  "with_playbackRate r (AudioBufferSourceNode b l r0 t s) = AudioBufferSourceNode b l r t s"
| "with_playbackRate r x = x"

fun with_gain :: "real \<Rightarrow> obj \<Rightarrow> obj" where
  "with_gain g (GainNode g0) = GainNode g"
| "with_gain g x = x"

fun started :: "real \<Rightarrow> obj \<Rightarrow> obj" where
  "started w (AudioBufferSourceNode b l r None s) = AudioBufferSourceNode b l r (Some w) s"
| "started w x = x"

definition assign :: "handle \<Rightarrow> (obj \<Rightarrow> obj) \<Rightarrow> controller \<Rightarrow> controller" where
  "assign n f c = c\<lparr>heap := (heap c)(n := map_option f (heap c n))\<rparr>"

text \<open>\<open>audioCtx.currentTime\<close>: each read asks the platform once.\<close>

definition currentTime :: "platform \<Rightarrow> controller \<Rightarrow> real \<times> controller" where
  "currentTime p c = (currentTimeAt p (timeReads c), c\<lparr>timeReads := Suc (timeReads c)\<rparr>)"

text \<open>Reading a property of \<open>ref.current\<close> raises when the ref holds \<open>null\<close>.\<close>

definition deref :: "handle option \<Rightarrow> error + handle" where
  "deref r = (case r of None \<Rightarrow> Inl TypeError | Some h \<Rightarrow> Inr h)"

text \<open>\<open>try { ... } catch { /* ignore */ }\<close> around a platform call.\<close>

definition ignoring :: "controller \<Rightarrow> error + controller \<Rightarrow> controller" where
  "ignoring c r = (case r of Inl e \<Rightarrow> c | Inr c' \<Rightarrow> c')"

subsection \<open>stopPhase\<close>

definition stopPhase :: "controller \<Rightarrow> controller" where
  "stopPhase c =
     (let s1 = source1Ref c;
          s2 = source2Ref c;
          g = gainRef c;
          c1 = (case s1 of None \<Rightarrow> c
                | Some n \<Rightarrow> (node_disconnect n (ignoring c (source_stop n c)))\<lparr>source1Ref := None\<rparr>);
          c2 = (case s2 of None \<Rightarrow> c1
                | Some n \<Rightarrow> (node_disconnect n (ignoring c1 (source_stop n c1)))\<lparr>source2Ref := None\<rparr>);
          c3 = (case g of None \<Rightarrow> c2
                | Some n \<Rightarrow> (node_disconnect n c2)\<lparr>gainRef := None\<rparr>)
      in setState (\<lambda>prev. prev\<lparr>isPhasePlaying := False\<rparr>) c3)"

subsection \<open>startPhase\<close>

definition startPhase :: "platform \<Rightarrow> UsePhaseLooperOptions \<Rightarrow> controller \<Rightarrow> controller" where
  "startPhase p options c =
     (case audioCtxRef c of
        None \<Rightarrow> c
      | Some audioCtx \<Rightarrow>
         (case phraseBufferRef c of
            None \<Rightarrow> c
          | Some buffer \<Rightarrow>
             (let c = stopPhase c;
                  (source1, c) = alloc (AudioBufferSourceNode None False 1 None False) c;
                  (source2, c) = alloc (AudioBufferSourceNode None False 1 None False) c;
                  (gainNode, c) = alloc (GainNode 1) c;
                  c = assign source1 (with_buffer buffer) c;
                  c = assign source2 (with_buffer buffer) c;
                  c = assign source1 (with_loop True) c;
                  c = assign source2 (with_loop True) c;
                  c = assign source1 (with_playbackRate (orDefault (basePlaybackRate options) 1.0)) c;
                  c = assign source2 (with_playbackRate (orDefault (fastPlaybackRate options) 1.003)) c;
                  (panner1, c) = alloc (StereoPannerNode (orDefault (panLeft options) (- 0.8))) c;
                  (panner2, c) = alloc (StereoPannerNode (orDefault (panRight options) 0.8)) c;
                  c = assign gainNode (with_gain (orDefault (gain options) 0.8)) c;
                  c = node_connect gainNode (Destination audioCtx)
                        (node_connect panner1 (Node gainNode)
                          (node_connect source1 (Node panner1) c));
                  c = node_connect gainNode (Destination audioCtx)
                        (node_connect panner2 (Node gainNode)
                          (node_connect source2 (Node panner2) c));
                  (now, c) = currentTime p c;
                  c = assign source1 (started now) c;
                  c = assign source2 (started now) c;
                  c = c\<lparr>source1Ref := Some source1\<rparr>;
                  c = c\<lparr>source2Ref := Some source2\<rparr>;
                  c = c\<lparr>gainRef := Some gainNode\<rparr>;
                  c = setState (\<lambda>prev. prev\<lparr>isPhasePlaying := True\<rparr>) c
              in setStatus
                   (''Phase loop playing. One channel is slightly faster, so they''
                    @ apostrophe @ ''ll drift over time.'')
                   c)))"

subsection \<open>The recorder's handlers\<close>

definition ondataavailable :: "nat \<Rightarrow> controller \<Rightarrow> controller" where
  "ondataavailable n c = (if n > 0 then c\<lparr>chunksRef := chunksRef c @ [n]\<rparr> else c)"

definition onstart :: "controller \<Rightarrow> controller" where
  "onstart c =
     setStatus (''Recording your phrase'' @ ellipsis)
       (setState (\<lambda>prev. prev\<lparr>isRecording := True\<rparr>) (c\<lparr>chunksRef := []\<rparr>))"

definition onstop_catch :: "controller \<Rightarrow> controller" where
  "onstop_catch c = setStatus ''Error decoding audio buffer.'' c"

text \<open>\<open>recorder.onstop\<close> up to \<open>await blob.arrayBuffer()\<close>.\<close>

definition onstop :: "controller \<Rightarrow> controller" where
  "onstop c =
     (if ignoreNextOnStopRef c then c\<lparr>ignoreNextOnStopRef := False\<rparr>
      else
        let c = setState (\<lambda>prev. prev\<lparr>isRecording := False\<rparr>) c;
            c = setStatus (''Processing recording'' @ ellipsis) c
        in if audioCtxRef c = None then c
           else c\<lparr>pending := pending c @ [AwaitArrayBuffer (sum_list (chunksRef c))]\<rparr>)"

text \<open>
  From there to \<open>await audioCtxRef.current.decodeAudioData(arrayBuffer)\<close>: the ref is read
  again, and reading a property of \<open>null\<close> raises into the \<open>catch\<close>.
\<close>

definition onstop_decode :: "nat \<Rightarrow> controller \<Rightarrow> controller" where
  "onstop_decode arrayBuffer c =
     (case deref (audioCtxRef c) of
        Inl e \<Rightarrow> onstop_catch c
      | Inr a \<Rightarrow> c\<lparr>pending := pending c @ [AwaitDecode a arrayBuffer]\<rparr>)"

text \<open>The rest of the \<open>try\<close> block, once the decode has produced a buffer.\<close>

definition onstop_store :: "string \<Rightarrow> controller \<Rightarrow> controller" where
  "onstop_store duration c =
     (let (buffer, c) = alloc (AudioBuffer duration) c;
          c = c\<lparr>phraseBufferRef := Some buffer\<rparr>;
          c = setState (\<lambda>prev. prev\<lparr>hasPhrase := True\<rparr>) c
      in setStatus (''Captured phrase: '' @ duration @ ''s. Ready to start phase loop.'') c)"

subsection \<open>enable\<close>

definition enable_catch :: "controller \<Rightarrow> controller" where
  "enable_catch c =
     setStatus ''Error accessing microphone. Check permissions.''
       (setState (\<lambda>prev. prev\<lparr>isEnabling := False\<rparr>) c)"

text \<open>\<open>await navigator.mediaDevices.getUserMedia({ audio: true })\<close>.\<close>

definition enable_getUserMedia :: "controller \<Rightarrow> controller" where
  "enable_getUserMedia c = c\<lparr>pending := pending c @ [AwaitUserMedia]\<rparr>"

text \<open>
  \<open>enable\<close> up to its first await. The three tests read \<open>state\<close> as the closure captured
  it, that is the state of the render that made this \<open>enable\<close>.
\<close>

definition enable :: "platform \<Rightarrow> controller \<Rightarrow> controller" where
  "enable p c =
     (if \<not> isSupported (snapshot c)
      then setStatus ''Web Audio or MediaRecorder not supported in this browser.'' c
      else if isEnabled (snapshot c) \<or> isEnabling (snapshot c) then c
      else
        let c = setState (\<lambda>prev. prev\<lparr>isEnabling := True\<rparr>) c;
            (audioCtx, c) =
               (case audioCtxRef c of
                  Some a \<Rightarrow> (a, c)
                | None \<Rightarrow>
                    (let (a, c) =
                           alloc (AudioContext (if contextStartsSuspended p then Suspended
                                                else Running)) c
                     in (a, c\<lparr>audioCtxRef := Some a\<rparr>)))
        in if contextState c audioCtx = Some Suspended
           then c\<lparr>pending := pending c @ [AwaitResume audioCtx]\<rparr>
           else enable_getUserMedia c)"

text \<open>
  \<open>enable\<close> after the stream is granted: the stream is stored, the recorder is constructed
  (\<open>recorderOk\<close> tells whether the constructor returns or raises), its three handlers are
  set, and the state is marked enabled.
\<close>

definition enable_granted :: "bool \<Rightarrow> controller \<Rightarrow> controller" where
  "enable_granted recorderOk c =
     (let (stream, c) = alloc (MediaStream True) c;
          c = c\<lparr>streamRef := Some stream\<rparr>
      in if \<not> recorderOk then enable_catch c
         else
           let (recorder, c) = alloc (MediaRecorder stream Inactive) c;
               c = c\<lparr>recorderRef := Some recorder\<rparr>;
               c = setState (\<lambda>prev. prev\<lparr>isEnabled := True, isEnabling := False\<rparr>) c
           in setStatus ''Mic enabled. Click Record and speak your phrase.'' c)"

subsection \<open>startRecording, stopRecording, reset\<close>

text \<open>
  An exception that leaves \<open>startRecording\<close> or \<open>stopRecording\<close> changes nothing in the
  controller: the platform call is their only statement.
\<close>

definition startRecording :: "controller \<Rightarrow> controller" where
  "startRecording c =
     (case recorderRef c of
        None \<Rightarrow> c
      | Some recorder \<Rightarrow>
          if recorderState c recorder = Some Recording then c
          else ignoring c (recorder_start recorder c))"

definition stopRecording :: "controller \<Rightarrow> controller" where
  "stopRecording c =
     (case recorderRef c of
        None \<Rightarrow> c
      | Some recorder \<Rightarrow>
          if recorderState c recorder \<noteq> Some Recording then c
          else ignoring c (recorder_stop recorder c))"

definition reset :: "platform \<Rightarrow> controller \<Rightarrow> controller" where
  "reset p c =
     (let c = stopPhase c;
          c = (case recorderRef c of
                 None \<Rightarrow> c
               | Some recorder \<Rightarrow>
                   if recorderState c recorder = Some Recording
                   then (let c = c\<lparr>ignoreNextOnStopRef := True\<rparr>
                         in ignoring c (recorder_stop recorder c))
                   else c);
          c = (case streamRef c of
                 None \<Rightarrow> c
               | Some s \<Rightarrow> (stream_stopTracks s c)\<lparr>streamRef := None\<rparr>);
          c = (case audioCtxRef c of
                 None \<Rightarrow> c
               | Some a \<Rightarrow> (context_close a c)\<lparr>audioCtxRef := None\<rparr>);
          c = c\<lparr>recorderRef := None\<rparr>;
          c = c\<lparr>chunksRef := []\<rparr>;
          c = c\<lparr>phraseBufferRef := None\<rparr>;
          c = c\<lparr>source1Ref := None\<rparr>;
          c = c\<lparr>source2Ref := None\<rparr>;
          c = c\<lparr>gainRef := None\<rparr>
      in setState (\<lambda>prev. getInitialState p) c)"

subsection \<open>Events\<close>

text \<open>
  What can happen to the controller: the six intents, a render, and the completion of
  something outstanding. \<open>StreamGranted ok\<close> fulfils \<open>getUserMedia\<close>; \<open>ok\<close> tells whether
  the recorder's constructor then returns. \<open>RecorderStopped n\<close> is the recorder's stop task:
  a \<open>dataavailable\<close> event with a chunk of size \<open>n\<close>, then the \<open>stop\<close> event.
  \<open>DecodeResolved a b d\<close> fulfils the decode issued on context \<open>a\<close> for the blob of size
  \<open>b\<close>, with a buffer whose duration prints as \<open>d\<close>.
\<close>

datatype event =
    Enable
  | StartRecording
  | StopRecording
  | StartPhase
  | StopPhase
  | Reset
  | Render
  | ResumeResolved handle
  | ResumeRejected handle
  | StreamGranted bool
  | StreamDenied
  | RecorderStarted
  | RecorderStopped nat
  | ArrayBufferResolved nat
  | ArrayBufferRejected nat
  | DecodeResolved handle nat string
  | DecodeRejected handle nat

fun awaited :: "event \<Rightarrow> task option" where
  "awaited (ResumeResolved a) = Some (AwaitResume a)"
| "awaited (ResumeRejected a) = Some (AwaitResume a)"
| "awaited (StreamGranted ok) = Some AwaitUserMedia"
| "awaited StreamDenied = Some AwaitUserMedia"
| "awaited RecorderStarted = Some StartEvent"
| "awaited (RecorderStopped n) = Some StopEvent"
| "awaited (ArrayBufferResolved b) = Some (AwaitArrayBuffer b)"
| "awaited (ArrayBufferRejected b) = Some (AwaitArrayBuffer b)"
| "awaited (DecodeResolved a b d) = Some (AwaitDecode a b)"
| "awaited (DecodeRejected a b) = Some (AwaitDecode a b)"
| "awaited e = None"

fun react :: "platform \<Rightarrow> UsePhaseLooperOptions \<Rightarrow> event \<Rightarrow> controller \<Rightarrow> controller" where
  "react p options Enable c = enable p c"
| "react p options StartRecording c = startRecording c"
| "react p options StopRecording c = stopRecording c"
| "react p options StartPhase c = startPhase p options c"
| "react p options StopPhase c = stopPhase c"
| "react p options Reset c = reset p c"
| "react p options Render c = render c"
| "react p options (ResumeResolved a) c = enable_getUserMedia (context_resumed a c)"
| "react p options (ResumeRejected a) c = enable_catch c"
| "react p options (StreamGranted ok) c = enable_granted ok c"
| "react p options StreamDenied c = enable_catch c"
| "react p options RecorderStarted c = onstart c"
| "react p options (RecorderStopped n) c = onstop (ondataavailable n c)"
| "react p options (ArrayBufferResolved b) c = onstop_decode b c"
| "react p options (ArrayBufferRejected b) c = onstop_catch c"
| "react p options (DecodeResolved a b d) c = onstop_store d c"
| "react p options (DecodeRejected a b) c = onstop_catch c"

text \<open>A completion happens only to something outstanding, and uses it up.\<close>

definition step :: "platform \<Rightarrow> UsePhaseLooperOptions \<Rightarrow> controller \<Rightarrow> event \<Rightarrow> controller" where
  "step p options c e =
     (case awaited e of
        None \<Rightarrow> react p options e c
      | Some t \<Rightarrow>
          if t \<in> set (pending c)
          then react p options e (c\<lparr>pending := remove1 t (pending c)\<rparr>)
          else c)"

definition run :: "platform \<Rightarrow> UsePhaseLooperOptions \<Rightarrow> event list \<Rightarrow> controller" where
  "run p options es = foldl (step p options) (usePhaseLooper p) es"

subsection \<open>Concrete platforms and options\<close>

text \<open>
  A browser with every capability whose contexts start running, one whose contexts start
  suspended, one without MediaRecorder, and the empty options (every default applies).
\<close>

definition browser :: platform where
  "browser =
     \<lparr> hasWindow = True, hasAudioContext = True, hasNavigator = True, hasGetUserMedia = True,
       hasMediaRecorder = True, contextStartsSuspended = False,
       currentTimeAt = (\<lambda>n. real n) \<rparr>"

definition gestureBrowser :: platform where
  "gestureBrowser = browser\<lparr>contextStartsSuspended := True\<rparr>"

definition legacyBrowser :: platform where
  "legacyBrowser = browser\<lparr>hasMediaRecorder := False\<rparr>"

definition noOptions :: UsePhaseLooperOptions where
  "noOptions =
     \<lparr> basePlaybackRate = None, fastPlaybackRate = None, gain = None,
       panLeft = None, panRight = None \<rparr>"

subsection \<open>Event classes and recorded scenarios\<close>

fun isDecodeResolved :: "event \<Rightarrow> bool" where
  "isDecodeResolved (DecodeResolved a b d) = True"
| "isDecodeResolved e = False"

text \<open>
  One take on \<open>browser\<close>: enable, record, stop, up to the point where the decode of the
  recording is outstanding on context 0; the same take once the decode has produced a
  phrase; and that state once \<open>startPhase\<close> has been called.
\<close>

definition recordTake :: "event list" where
  "recordTake =
     [Enable, StreamGranted True, StartRecording, RecorderStarted, StopRecording,
      RecorderStopped 5, ArrayBufferResolved 5]"

definition decodePending :: controller where
  "decodePending = run browser noOptions recordTake"

definition phraseReady :: controller where
  "phraseReady = run browser noOptions (recordTake @ [DecodeResolved 0 5 ''1.00''])"

definition phasePlaying :: controller where
  "phasePlaying = startPhase browser noOptions phraseReady"

text \<open>
  Five more runs on \<open>browser\<close>: the recorder's constructor raises after the stream was
  granted, and \<open>enable\<close> is then retried; \<open>enable\<close> is called twice before any render;
  \<open>reset\<close> and a second \<open>enable\<close> arrive, with a render after each, while the microphone
  request of a first \<open>enable\<close> is outstanding; a reset arrives while the decode of a take
  is outstanding, and the decode then succeeds; a second recording is started while the
  phase loop of the first plays.
\<close>

definition recorderFailed :: controller where
  "recorderFailed = run browser noOptions [Enable, StreamGranted False]"

definition retried :: controller where
  "retried =
     run browser noOptions [Enable, StreamGranted False, Render, Enable, StreamGranted True]"

definition doubleEnable :: controller where
  "doubleEnable =
     run browser noOptions [Enable, Enable, StreamGranted True, StreamGranted True]"

definition resetDuringEnable :: controller where
  "resetDuringEnable =
     run browser noOptions
       [Enable, Render, Reset, Render, Enable, Render, StreamGranted True, Render,
        StreamGranted True]"

definition staleDecode :: controller where
  "staleDecode = run browser noOptions (recordTake @ [Reset, DecodeResolved 0 5 ''1.00''])"

definition overdub :: controller where
  "overdub =
     run browser noOptions
       (recordTake @ [DecodeResolved 0 5 ''1.00'', StartPhase, StartRecording,
                      RecorderStarted])"

subsection \<open>Predicates on events and controller states\<close>

text \<open>The three ways in which \<open>enable\<close> can fail after its first await.\<close>

fun isEnableFailure :: "event \<Rightarrow> bool" where
  "isEnableFailure (ResumeRejected a) = True"
| "isEnableFailure StreamDenied = True"
| "isEnableFailure (StreamGranted ok) = (\<not> ok)"
| "isEnableFailure e = False"

text \<open>A completion whose promise or recorder event is outstanding.\<close>

definition outstanding :: "controller \<Rightarrow> event \<Rightarrow> bool" where
  "outstanding c e = (case awaited e of None \<Rightarrow> False | Some t \<Rightarrow> t \<in> set (pending c))"

text \<open>A controller that has constructed nothing, on a platform without support.\<close>

definition idle :: "controller \<Rightarrow> bool" where
  "idle c =
     (audioCtxRef c = None \<and> streamRef c = None \<and> recorderRef c = None
      \<and> phraseBufferRef c = None \<and> source1Ref c = None \<and> source2Ref c = None
      \<and> gainRef c = None \<and> heap c = (\<lambda>h. None) \<and> nextHandle c = 0 \<and> pending c = []
      \<and> \<not> isSupported (state c) \<and> \<not> isSupported (snapshot c)
      \<and> \<not> isEnabled (state c) \<and> \<not> isEnabled (snapshot c))"

fun isIntent :: "event \<Rightarrow> bool" where
  "isIntent Enable = True"
| "isIntent StartRecording = True"
| "isIntent StopRecording = True"
| "isIntent StartPhase = True"
| "isIntent StopPhase = True"
| "isIntent Reset = True"
| "isIntent e = False"

text \<open>
  Sequential use: an intent is issued only when nothing is outstanding, and
  \<open>startRecording\<close> only while \<open>hasPhrase\<close> is false.
\<close>

definition permitted :: "controller \<Rightarrow> event \<Rightarrow> bool" where
  "permitted c e =
     ((isIntent e \<longrightarrow> pending c = []) \<and> (e = StartRecording \<longrightarrow> \<not> hasPhrase (state c)))"

fun sequential ::
  "platform \<Rightarrow> UsePhaseLooperOptions \<Rightarrow> controller \<Rightarrow> event list \<Rightarrow> bool" where
  "sequential p options c [] = True"
| "sequential p options c (e # es) =
     (permitted c e \<and> sequential p options (step p options c e) es)"

fun decoding :: "task \<Rightarrow> bool" where
  "decoding (AwaitArrayBuffer b) = True"
| "decoding (AwaitDecode a b) = True"
| "decoding t = False"

text \<open>The invariant of sequential use.\<close>

definition settled :: "controller \<Rightarrow> bool" where
  "settled c =
     (length (pending c) \<le> 1
      \<and> hasPhrase (state c) = (phraseBufferRef c \<noteq> None)
      \<and> (isPhasePlaying (state c) \<longrightarrow> phraseBufferRef c \<noteq> None)
      \<and> (phraseBufferRef c \<noteq> None \<longrightarrow>
           \<not> isRecording (state c) \<and> StartEvent \<notin> set (pending c))
      \<and> (\<forall>t\<in>set (pending c). decoding t \<longrightarrow> \<not> isRecording (state c)))"

section \<open>Frame facts of the platform operations\<close>

lemma try_source_stop_frame [simp]:
  "state (ignoring c (source_stop n c)) = state c"
  "snapshot (ignoring c (source_stop n c)) = snapshot c"
  "audioCtxRef (ignoring c (source_stop n c)) = audioCtxRef c"
  "streamRef (ignoring c (source_stop n c)) = streamRef c"
  "recorderRef (ignoring c (source_stop n c)) = recorderRef c"
  "chunksRef (ignoring c (source_stop n c)) = chunksRef c"
  "phraseBufferRef (ignoring c (source_stop n c)) = phraseBufferRef c"
  "source1Ref (ignoring c (source_stop n c)) = source1Ref c"
  "source2Ref (ignoring c (source_stop n c)) = source2Ref c"
  "gainRef (ignoring c (source_stop n c)) = gainRef c"
  "ignoreNextOnStopRef (ignoring c (source_stop n c)) = ignoreNextOnStopRef c"
  "nextHandle (ignoring c (source_stop n c)) = nextHandle c"
  "conns (ignoring c (source_stop n c)) = conns c"
  "pending (ignoring c (source_stop n c)) = pending c"
  "timeReads (ignoring c (source_stop n c)) = timeReads c"
  by (simp_all add: ignoring_def source_stop_def split: option.splits obj.splits bool.splits)

lemma try_recorder_start_frame [simp]:
  "state (ignoring c (recorder_start r c)) = state c"
  "snapshot (ignoring c (recorder_start r c)) = snapshot c"
  "audioCtxRef (ignoring c (recorder_start r c)) = audioCtxRef c"
  "streamRef (ignoring c (recorder_start r c)) = streamRef c"
  "recorderRef (ignoring c (recorder_start r c)) = recorderRef c"
  "chunksRef (ignoring c (recorder_start r c)) = chunksRef c"
  "phraseBufferRef (ignoring c (recorder_start r c)) = phraseBufferRef c"
  "source1Ref (ignoring c (recorder_start r c)) = source1Ref c"
  "source2Ref (ignoring c (recorder_start r c)) = source2Ref c"
  "gainRef (ignoring c (recorder_start r c)) = gainRef c"
  "ignoreNextOnStopRef (ignoring c (recorder_start r c)) = ignoreNextOnStopRef c"
  "nextHandle (ignoring c (recorder_start r c)) = nextHandle c"
  "conns (ignoring c (recorder_start r c)) = conns c"
  "timeReads (ignoring c (recorder_start r c)) = timeReads c"
  by (simp_all add: ignoring_def recorder_start_def split: option.splits obj.splits RecordingState.splits)

lemma try_recorder_stop_frame [simp]:
  "state (ignoring c (recorder_stop r c)) = state c"
  "snapshot (ignoring c (recorder_stop r c)) = snapshot c"
  "audioCtxRef (ignoring c (recorder_stop r c)) = audioCtxRef c"
  "streamRef (ignoring c (recorder_stop r c)) = streamRef c"
  "recorderRef (ignoring c (recorder_stop r c)) = recorderRef c"
  "chunksRef (ignoring c (recorder_stop r c)) = chunksRef c"
  "phraseBufferRef (ignoring c (recorder_stop r c)) = phraseBufferRef c"
  "source1Ref (ignoring c (recorder_stop r c)) = source1Ref c"
  "source2Ref (ignoring c (recorder_stop r c)) = source2Ref c"
  "gainRef (ignoring c (recorder_stop r c)) = gainRef c"
  "ignoreNextOnStopRef (ignoring c (recorder_stop r c)) = ignoreNextOnStopRef c"
  "nextHandle (ignoring c (recorder_stop r c)) = nextHandle c"
  "conns (ignoring c (recorder_stop r c)) = conns c"
  "timeReads (ignoring c (recorder_stop r c)) = timeReads c"
  by (simp_all add: ignoring_def recorder_stop_def split: option.splits obj.splits RecordingState.splits)

lemma node_disconnect_frame [simp]:
  "state (node_disconnect n c) = state c"
  "snapshot (node_disconnect n c) = snapshot c"
  "audioCtxRef (node_disconnect n c) = audioCtxRef c"
  "streamRef (node_disconnect n c) = streamRef c"
  "recorderRef (node_disconnect n c) = recorderRef c"
  "chunksRef (node_disconnect n c) = chunksRef c"
  "phraseBufferRef (node_disconnect n c) = phraseBufferRef c"
  "source1Ref (node_disconnect n c) = source1Ref c"
  "source2Ref (node_disconnect n c) = source2Ref c"
  "gainRef (node_disconnect n c) = gainRef c"
  "ignoreNextOnStopRef (node_disconnect n c) = ignoreNextOnStopRef c"
  "heap (node_disconnect n c) = heap c"
  "nextHandle (node_disconnect n c) = nextHandle c"
  "pending (node_disconnect n c) = pending c"
  "timeReads (node_disconnect n c) = timeReads c"
  by (simp_all add: node_disconnect_def)

lemma node_connect_frame [simp]:
  "state (node_connect n d c) = state c"
  "snapshot (node_connect n d c) = snapshot c"
  "audioCtxRef (node_connect n d c) = audioCtxRef c"
  "streamRef (node_connect n d c) = streamRef c"
  "recorderRef (node_connect n d c) = recorderRef c"
  "chunksRef (node_connect n d c) = chunksRef c"
  "phraseBufferRef (node_connect n d c) = phraseBufferRef c"
  "source1Ref (node_connect n d c) = source1Ref c"
  "source2Ref (node_connect n d c) = source2Ref c"
  "gainRef (node_connect n d c) = gainRef c"
  "ignoreNextOnStopRef (node_connect n d c) = ignoreNextOnStopRef c"
  "heap (node_connect n d c) = heap c"
  "nextHandle (node_connect n d c) = nextHandle c"
  "pending (node_connect n d c) = pending c"
  "timeReads (node_connect n d c) = timeReads c"
  by (simp_all add: node_connect_def)

lemma assign_frame [simp]:
  "state (assign n f c) = state c"
  "snapshot (assign n f c) = snapshot c"
  "audioCtxRef (assign n f c) = audioCtxRef c"
  "streamRef (assign n f c) = streamRef c"
  "recorderRef (assign n f c) = recorderRef c"
  "chunksRef (assign n f c) = chunksRef c"
  "phraseBufferRef (assign n f c) = phraseBufferRef c"
  "source1Ref (assign n f c) = source1Ref c"
  "source2Ref (assign n f c) = source2Ref c"
  "gainRef (assign n f c) = gainRef c"
  "ignoreNextOnStopRef (assign n f c) = ignoreNextOnStopRef c"
  "nextHandle (assign n f c) = nextHandle c"
  "conns (assign n f c) = conns c"
  "pending (assign n f c) = pending c"
  "timeReads (assign n f c) = timeReads c"
  by (simp_all add: assign_def)

lemma alloc_frame [simp]:
  "state (snd (alloc x c)) = state c"
  "snapshot (snd (alloc x c)) = snapshot c"
  "audioCtxRef (snd (alloc x c)) = audioCtxRef c"
  "streamRef (snd (alloc x c)) = streamRef c"
  "recorderRef (snd (alloc x c)) = recorderRef c"
  "chunksRef (snd (alloc x c)) = chunksRef c"
  "phraseBufferRef (snd (alloc x c)) = phraseBufferRef c"
  "source1Ref (snd (alloc x c)) = source1Ref c"
  "source2Ref (snd (alloc x c)) = source2Ref c"
  "gainRef (snd (alloc x c)) = gainRef c"
  "ignoreNextOnStopRef (snd (alloc x c)) = ignoreNextOnStopRef c"
  "conns (snd (alloc x c)) = conns c"
  "pending (snd (alloc x c)) = pending c"
  "timeReads (snd (alloc x c)) = timeReads c"
  by (simp_all add: alloc_def)

lemma currentTime_frame [simp]:
  "state (snd (currentTime p c)) = state c"
  "snapshot (snd (currentTime p c)) = snapshot c"
  "audioCtxRef (snd (currentTime p c)) = audioCtxRef c"
  "streamRef (snd (currentTime p c)) = streamRef c"
  "recorderRef (snd (currentTime p c)) = recorderRef c"
  "chunksRef (snd (currentTime p c)) = chunksRef c"
  "phraseBufferRef (snd (currentTime p c)) = phraseBufferRef c"
  "source1Ref (snd (currentTime p c)) = source1Ref c"
  "source2Ref (snd (currentTime p c)) = source2Ref c"
  "gainRef (snd (currentTime p c)) = gainRef c"
  "ignoreNextOnStopRef (snd (currentTime p c)) = ignoreNextOnStopRef c"
  "heap (snd (currentTime p c)) = heap c"
  "nextHandle (snd (currentTime p c)) = nextHandle c"
  "conns (snd (currentTime p c)) = conns c"
  "pending (snd (currentTime p c)) = pending c"
  by (simp_all add: currentTime_def)

lemma context_resumed_frame [simp]:
  "state (context_resumed a c) = state c"
  "snapshot (context_resumed a c) = snapshot c"
  "audioCtxRef (context_resumed a c) = audioCtxRef c"
  "streamRef (context_resumed a c) = streamRef c"
  "recorderRef (context_resumed a c) = recorderRef c"
  "chunksRef (context_resumed a c) = chunksRef c"
  "phraseBufferRef (context_resumed a c) = phraseBufferRef c"
  "source1Ref (context_resumed a c) = source1Ref c"
  "source2Ref (context_resumed a c) = source2Ref c"
  "gainRef (context_resumed a c) = gainRef c"
  "ignoreNextOnStopRef (context_resumed a c) = ignoreNextOnStopRef c"
  "nextHandle (context_resumed a c) = nextHandle c"
  "conns (context_resumed a c) = conns c"
  "pending (context_resumed a c) = pending c"
  "timeReads (context_resumed a c) = timeReads c"
  by (simp_all add: context_resumed_def split: option.splits obj.splits AudioContextState.splits)

lemma context_close_frame [simp]:
  "state (context_close a c) = state c"
  "snapshot (context_close a c) = snapshot c"
  "audioCtxRef (context_close a c) = audioCtxRef c"
  "streamRef (context_close a c) = streamRef c"
  "recorderRef (context_close a c) = recorderRef c"
  "chunksRef (context_close a c) = chunksRef c"
  "phraseBufferRef (context_close a c) = phraseBufferRef c"
  "source1Ref (context_close a c) = source1Ref c"
  "source2Ref (context_close a c) = source2Ref c"
  "gainRef (context_close a c) = gainRef c"
  "ignoreNextOnStopRef (context_close a c) = ignoreNextOnStopRef c"
  "nextHandle (context_close a c) = nextHandle c"
  "conns (context_close a c) = conns c"
  "pending (context_close a c) = pending c"
  "timeReads (context_close a c) = timeReads c"
  by (simp_all add: context_close_def split: option.splits obj.splits)

lemma stream_stopTracks_frame [simp]:
  "state (stream_stopTracks s c) = state c"
  "snapshot (stream_stopTracks s c) = snapshot c"
  "audioCtxRef (stream_stopTracks s c) = audioCtxRef c"
  "streamRef (stream_stopTracks s c) = streamRef c"
  "recorderRef (stream_stopTracks s c) = recorderRef c"
  "chunksRef (stream_stopTracks s c) = chunksRef c"
  "phraseBufferRef (stream_stopTracks s c) = phraseBufferRef c"
  "source1Ref (stream_stopTracks s c) = source1Ref c"
  "source2Ref (stream_stopTracks s c) = source2Ref c"
  "gainRef (stream_stopTracks s c) = gainRef c"
  "ignoreNextOnStopRef (stream_stopTracks s c) = ignoreNextOnStopRef c"
  "nextHandle (stream_stopTracks s c) = nextHandle c"
  "conns (stream_stopTracks s c) = conns c"
  "pending (stream_stopTracks s c) = pending c"
  "timeReads (stream_stopTracks s c) = timeReads c"
  by (simp_all add: stream_stopTracks_def split: option.splits obj.splits)

lemma setState_frame [simp]:
  "snapshot (setState f c) = snapshot c"
  "audioCtxRef (setState f c) = audioCtxRef c"
  "streamRef (setState f c) = streamRef c"
  "recorderRef (setState f c) = recorderRef c"
  "chunksRef (setState f c) = chunksRef c"
  "phraseBufferRef (setState f c) = phraseBufferRef c"
  "source1Ref (setState f c) = source1Ref c"
  "source2Ref (setState f c) = source2Ref c"
  "gainRef (setState f c) = gainRef c"
  "ignoreNextOnStopRef (setState f c) = ignoreNextOnStopRef c"
  "heap (setState f c) = heap c"
  "nextHandle (setState f c) = nextHandle c"
  "conns (setState f c) = conns c"
  "pending (setState f c) = pending c"
  "timeReads (setState f c) = timeReads c"
  by (simp_all add: setState_def)

lemma setStatus_frame [simp]:
  "snapshot (setStatus s c) = snapshot c"
  "audioCtxRef (setStatus s c) = audioCtxRef c"
  "streamRef (setStatus s c) = streamRef c"
  "recorderRef (setStatus s c) = recorderRef c"
  "chunksRef (setStatus s c) = chunksRef c"
  "phraseBufferRef (setStatus s c) = phraseBufferRef c"
  "source1Ref (setStatus s c) = source1Ref c"
  "source2Ref (setStatus s c) = source2Ref c"
  "gainRef (setStatus s c) = gainRef c"
  "ignoreNextOnStopRef (setStatus s c) = ignoreNextOnStopRef c"
  "heap (setStatus s c) = heap c"
  "nextHandle (setStatus s c) = nextHandle c"
  "conns (setStatus s c) = conns c"
  "pending (setStatus s c) = pending c"
  "timeReads (setStatus s c) = timeReads c"
  by (simp_all add: setStatus_def setState_def)

lemma render_frame [simp]:
  "state (render c) = state c"
  "audioCtxRef (render c) = audioCtxRef c"
  "streamRef (render c) = streamRef c"
  "recorderRef (render c) = recorderRef c"
  "chunksRef (render c) = chunksRef c"
  "phraseBufferRef (render c) = phraseBufferRef c"
  "source1Ref (render c) = source1Ref c"
  "source2Ref (render c) = source2Ref c"
  "gainRef (render c) = gainRef c"
  "ignoreNextOnStopRef (render c) = ignoreNextOnStopRef c"
  "heap (render c) = heap c"
  "nextHandle (render c) = nextHandle c"
  "conns (render c) = conns c"
  "pending (render c) = pending c"
  "timeReads (render c) = timeReads c"
  by (simp_all add: render_def)

lemma state_setState [simp]: "state (setState f c) = f (state c)"
  by (simp add: setState_def)

lemma state_setStatus [simp]: "state (setStatus s c) = (state c)\<lparr>status := s\<rparr>"
  by (simp add: setStatus_def)

lemma snapshot_render [simp]: "snapshot (render c) = state c"
  by (simp add: render_def)

lemma fst_alloc [simp]: "fst (alloc x c) = nextHandle c"
  by (simp add: alloc_def)

lemma heap_alloc [simp]:
  "heap (snd (alloc x c)) h = (if h = nextHandle c then Some x else heap c h)"
  by (simp add: alloc_def)

lemma nextHandle_alloc [simp]: "nextHandle (snd (alloc x c)) = Suc (nextHandle c)"
  by (simp add: alloc_def)

lemma heap_assign [simp]:
  "heap (assign n f c) h = (if h = n then map_option f (heap c n) else heap c h)"
  by (simp add: assign_def)

lemma currentTime_read [simp]:
  "fst (currentTime p c) = currentTimeAt p (timeReads c)"
  "timeReads (snd (currentTime p c)) = Suc (timeReads c)"
  by (simp_all add: currentTime_def)

text \<open>The definitions that a run on a concrete platform unfolds.\<close>

lemmas model_defs =
  run_def step_def usePhaseLooper_def getInitialState_def enable_def enable_getUserMedia_def
  enable_granted_def enable_catch_def startRecording_def stopRecording_def recorder_start_def
  recorder_stop_def recorderState_def contextState_def onstart_def onstop_def
  ondataavailable_def onstop_decode_def deref_def onstop_store_def onstop_catch_def alloc_def
  setState_def setStatus_def ignoring_def Let_def reset_def stopPhase_def context_close_def
  stream_stopTracks_def render_def context_resumed_def source_stop_def node_disconnect_def

lemmas scenario_defs =
  browser_def gestureBrowser_def legacyBrowser_def noOptions_def
  recordTake_def decodePending_def phraseReady_def recorderFailed_def retried_def
  doubleEnable_def resetDuringEnable_def staleDecode_def overdub_def

section \<open>stopPhase\<close>

lemma stopPhase_refs:
  "source1Ref (stopPhase c) = None"
  "source2Ref (stopPhase c) = None"
  "gainRef (stopPhase c) = None"
  by (simp_all add: stopPhase_def Let_def split: option.splits)

lemma stopPhase_frame [simp]:
  "snapshot (stopPhase c) = snapshot c"
  "audioCtxRef (stopPhase c) = audioCtxRef c"
  "streamRef (stopPhase c) = streamRef c"
  "recorderRef (stopPhase c) = recorderRef c"
  "chunksRef (stopPhase c) = chunksRef c"
  "phraseBufferRef (stopPhase c) = phraseBufferRef c"
  "ignoreNextOnStopRef (stopPhase c) = ignoreNextOnStopRef c"
  "nextHandle (stopPhase c) = nextHandle c"
  "pending (stopPhase c) = pending c"
  "timeReads (stopPhase c) = timeReads c"
  by (simp_all add: stopPhase_def Let_def split: option.splits)

lemma stopPhase_state:
  "state (stopPhase c) = (state c)\<lparr>isPhasePlaying := False\<rparr>"
  by (simp add: stopPhase_def Let_def split: option.splits)

lemma stopPhase_conns:
  "e \<in> set (conns (stopPhase c)) \<Longrightarrow>
     Some (fst e) \<noteq> source1Ref c \<and> Some (fst e) \<noteq> source2Ref c \<and> Some (fst e) \<noteq> gainRef c"
  by (auto simp add: stopPhase_def Let_def node_disconnect_def split: option.splits)

lemma stopPhase_flag: "isPhasePlaying (state (stopPhase c)) = False"
  by (simp add: stopPhase_def Let_def)

lemma stopPhase_no_graph:
  "source1Ref c = None \<Longrightarrow> source2Ref c = None \<Longrightarrow> gainRef c = None \<Longrightarrow>
   stopPhase c = setState (\<lambda>prev. prev\<lparr>isPhasePlaying := False\<rparr>) c"
  by (simp add: stopPhase_def)

lemma stopPhase_twice: "stopPhase (stopPhase c) = stopPhase c"
proof -
  have "stopPhase (stopPhase c)
        = setState (\<lambda>prev. prev\<lparr>isPhasePlaying := False\<rparr>) (stopPhase c)"
    by (rule stopPhase_no_graph) (simp_all add: stopPhase_refs)
  also have "\<dots> = stopPhase c"
    by (simp add: stopPhase_def Let_def setState_def)
  finally show ?thesis .
qed

lemma stopPhase_fresh: "stopPhase (usePhaseLooper p) = usePhaseLooper p"
  by (simp add: stopPhase_def usePhaseLooper_def setState_def getInitialState_def)

text \<open>
  C3. \<open>stopPhase\<close> is a total function of the controller (the error of \<open>source.stop()\<close> is
  caught and ignored, \<open>disconnect\<close> does not raise). In every controller state it leaves
  \<open>isPhasePlaying\<close> false and the two source refs and the gain ref empty; calling it a
  second time changes nothing more; on a fresh controller it changes nothing at all.
\<close>

theorem stopPhase_idempotent_total:
  "isPhasePlaying (state (stopPhase c)) = False
   \<and> source1Ref (stopPhase c) = None
   \<and> source2Ref (stopPhase c) = None
   \<and> gainRef (stopPhase c) = None
   \<and> stopPhase (stopPhase c) = stopPhase c
   \<and> stopPhase (usePhaseLooper p) = usePhaseLooper p"
  by (simp add: stopPhase_refs stopPhase_flag stopPhase_twice stopPhase_fresh)

section \<open>reset\<close>

text \<open>
  C1. In every controller state, \<open>reset\<close> leaves in the state cell, and so in the snapshot
  of the next render, the value \<open>getInitialState()\<close>: the snapshot of construction, with
  \<open>isSupported\<close> computed by the same capability check and every other flag false, the
  status empty.
\<close>

theorem reset_yields_initial_snapshot:
  "state (reset p c) = getInitialState p
   \<and> snapshot (render (reset p c)) = getInitialState p
   \<and> state (usePhaseLooper p) = getInitialState p
   \<and> snapshot (usePhaseLooper p) = getInitialState p
   \<and> isSupported (getInitialState p)
        = (hasWindow p \<and> hasAudioContext p \<and> hasNavigator p \<and> hasGetUserMedia p
           \<and> hasMediaRecorder p)
   \<and> isEnabling (getInitialState p) = False
   \<and> isEnabled (getInitialState p) = False
   \<and> isRecording (getInitialState p) = False
   \<and> hasPhrase (getInitialState p) = False
   \<and> isPhasePlaying (getInitialState p) = False
   \<and> status (getInitialState p) = []"
  by (simp add: reset_def usePhaseLooper_def getInitialState_def Let_def)

section \<open>startRecording and stopRecording\<close>

lemma startRecording_cases:
  "startRecording c = c
   \<or> (\<exists>r. recorderRef c = Some r \<and> recorder_start r c = Inr (startRecording c))"
  by (auto simp: startRecording_def ignoring_def split: option.splits sum.splits)

lemma stopRecording_cases:
  "stopRecording c = c
   \<or> (\<exists>r. recorderRef c = Some r \<and> recorder_stop r c = Inr (stopRecording c))"
  by (auto simp: stopRecording_def ignoring_def split: option.splits sum.splits)

lemma startRecording_frame:
  "state (startRecording c) = state c"
  "snapshot (startRecording c) = snapshot c"
  "audioCtxRef (startRecording c) = audioCtxRef c"
  "streamRef (startRecording c) = streamRef c"
  "recorderRef (startRecording c) = recorderRef c"
  "chunksRef (startRecording c) = chunksRef c"
  "phraseBufferRef (startRecording c) = phraseBufferRef c"
  "source1Ref (startRecording c) = source1Ref c"
  "source2Ref (startRecording c) = source2Ref c"
  "gainRef (startRecording c) = gainRef c"
  "ignoreNextOnStopRef (startRecording c) = ignoreNextOnStopRef c"
  "conns (startRecording c) = conns c"
  "nextHandle (startRecording c) = nextHandle c"
  "timeReads (startRecording c) = timeReads c"
  by (simp_all add: startRecording_def split: option.splits)

lemma stopRecording_frame:
  "state (stopRecording c) = state c"
  "snapshot (stopRecording c) = snapshot c"
  "audioCtxRef (stopRecording c) = audioCtxRef c"
  "streamRef (stopRecording c) = streamRef c"
  "recorderRef (stopRecording c) = recorderRef c"
  "chunksRef (stopRecording c) = chunksRef c"
  "phraseBufferRef (stopRecording c) = phraseBufferRef c"
  "source1Ref (stopRecording c) = source1Ref c"
  "source2Ref (stopRecording c) = source2Ref c"
  "gainRef (stopRecording c) = gainRef c"
  "ignoreNextOnStopRef (stopRecording c) = ignoreNextOnStopRef c"
  "conns (stopRecording c) = conns c"
  "nextHandle (stopRecording c) = nextHandle c"
  "timeReads (stopRecording c) = timeReads c"
  by (simp_all add: stopRecording_def split: option.splits)

lemma onstart_flag: "isRecording (state (onstart c)) = True"
  by (simp add: onstart_def)

lemma onstart_status: "status (state (onstart c)) \<noteq> []"
  by (simp add: onstart_def)

lemma onstart_state:
  "(state (onstart c))\<lparr>status := s\<rparr> = (state c)\<lparr>isRecording := True, status := s\<rparr>"
  by (simp add: onstart_def)

lemma onstop_flag:
  "isRecording (state (onstop c)) = (ignoreNextOnStopRef c \<and> isRecording (state c))"
  by (simp add: onstop_def Let_def)

text \<open>
  C10. In every controller state \<open>startRecording\<close> and \<open>stopRecording\<close> leave the state
  cell, the rendered snapshot and every ref as they were, construct nothing, and either
  return the controller unchanged or return exactly what the recorder's own \<open>start()\<close>
  (\<open>stop()\<close>) made of it: the recorder's state and one queued event. The flag
  \<open>isRecording\<close> and the status are written by the handlers: \<open>onstart\<close> changes the
  state in \<open>isRecording\<close>, which it sets, and in the status, which it makes non-empty,
  and in nothing else; \<open>onstop\<close> clears \<open>isRecording\<close> unless the stop is to be ignored.
\<close>

theorem recording_intents_change_no_state:
  "state (startRecording c) = state c
   \<and> snapshot (startRecording c) = snapshot c
   \<and> audioCtxRef (startRecording c) = audioCtxRef c
   \<and> streamRef (startRecording c) = streamRef c
   \<and> recorderRef (startRecording c) = recorderRef c
   \<and> chunksRef (startRecording c) = chunksRef c
   \<and> phraseBufferRef (startRecording c) = phraseBufferRef c
   \<and> source1Ref (startRecording c) = source1Ref c
   \<and> source2Ref (startRecording c) = source2Ref c
   \<and> gainRef (startRecording c) = gainRef c
   \<and> ignoreNextOnStopRef (startRecording c) = ignoreNextOnStopRef c
   \<and> nextHandle (startRecording c) = nextHandle c
   \<and> (startRecording c = c
        \<or> (\<exists>r. recorderRef c = Some r \<and> recorder_start r c = Inr (startRecording c)))
   \<and> state (stopRecording c) = state c
   \<and> snapshot (stopRecording c) = snapshot c
   \<and> audioCtxRef (stopRecording c) = audioCtxRef c
   \<and> streamRef (stopRecording c) = streamRef c
   \<and> recorderRef (stopRecording c) = recorderRef c
   \<and> chunksRef (stopRecording c) = chunksRef c
   \<and> phraseBufferRef (stopRecording c) = phraseBufferRef c
   \<and> source1Ref (stopRecording c) = source1Ref c
   \<and> source2Ref (stopRecording c) = source2Ref c
   \<and> gainRef (stopRecording c) = gainRef c
   \<and> ignoreNextOnStopRef (stopRecording c) = ignoreNextOnStopRef c
   \<and> nextHandle (stopRecording c) = nextHandle c
   \<and> (stopRecording c = c
        \<or> (\<exists>r. recorderRef c = Some r \<and> recorder_stop r c = Inr (stopRecording c)))
   \<and> isRecording (state (onstart c)) = True
   \<and> status (state (onstart c)) \<noteq> []
   \<and> (state (onstart c))\<lparr>status := s\<rparr> = (state c)\<lparr>isRecording := True, status := s\<rparr>
   \<and> isRecording (state (onstop c)) = (ignoreNextOnStopRef c \<and> isRecording (state c))"
  using startRecording_cases [of c] stopRecording_cases [of c]
  by (simp add: startRecording_frame stopRecording_frame onstart_flag onstart_status
      onstart_state onstop_flag)

section \<open>startPhase\<close>

lemma startPhase_noop:
  "audioCtxRef c = None \<or> phraseBufferRef c = None \<Longrightarrow> startPhase p options c = c"
  by (auto simp: startPhase_def split: option.splits)

lemma startPhase_frame:
  "snapshot (startPhase p options c) = snapshot c"
  "audioCtxRef (startPhase p options c) = audioCtxRef c"
  "streamRef (startPhase p options c) = streamRef c"
  "recorderRef (startPhase p options c) = recorderRef c"
  "chunksRef (startPhase p options c) = chunksRef c"
  "phraseBufferRef (startPhase p options c) = phraseBufferRef c"
  "ignoreNextOnStopRef (startPhase p options c) = ignoreNextOnStopRef c"
  "pending (startPhase p options c) = pending c"
  "isRecording (state (startPhase p options c)) = isRecording (state c)"
  "hasPhrase (state (startPhase p options c)) = hasPhrase (state c)"
  by (simp_all add: startPhase_def Let_def split_def stopPhase_state split: option.splits)

lemma stopPhase_heap_no_graph:
  "source1Ref c = None \<Longrightarrow> source2Ref c = None \<Longrightarrow> heap (stopPhase c) = heap c"
  by (simp add: stopPhase_def Let_def split: option.splits)

lemma no_phrase_react:
  "\<not> isDecodeResolved e \<Longrightarrow> phraseBufferRef c = None \<Longrightarrow> \<not> hasPhrase (state c) \<Longrightarrow>
   phraseBufferRef (react p options e c) = None \<and> \<not> hasPhrase (state (react p options e c))"
  apply (cases e)
  apply (simp_all add: startRecording_frame stopRecording_frame startPhase_noop
      stopPhase_state)
  apply (simp_all add: enable_def enable_getUserMedia_def reset_def getInitialState_def
      enable_catch_def enable_granted_def onstart_def onstop_def ondataavailable_def
      onstop_decode_def deref_def onstop_catch_def Let_def split_def split: option.splits)
  done

lemma no_phrase_step:
  "\<not> isDecodeResolved e \<Longrightarrow> phraseBufferRef c = None \<Longrightarrow> \<not> hasPhrase (state c) \<Longrightarrow>
   phraseBufferRef (step p options c e) = None \<and> \<not> hasPhrase (state (step p options c e))"
  unfolding step_def
  by (cases "awaited e") (simp_all add: no_phrase_react)

lemma no_phrase_run:
  "\<forall>e\<in>set es. \<not> isDecodeResolved e \<Longrightarrow> phraseBufferRef c = None \<Longrightarrow>
   \<not> hasPhrase (state c) \<Longrightarrow>
   phraseBufferRef (foldl (step p options) c es) = None
   \<and> \<not> hasPhrase (state (foldl (step p options) c es))"
  by (induction es arbitrary: c) (simp_all add: no_phrase_step)

text \<open>
  C5. Without an audio context or without a stored phrase \<open>startPhase\<close> returns the
  controller as it was. When no phrase is stored and a decode fails, \<open>hasPhrase\<close> stays
  false and no phrase is stored, and this stays so through every later event other than a
  decode that succeeds; so \<open>startPhase\<close> is still a no-op then.
\<close>

theorem startPhase_noop_unless_context_and_phrase:
  "(audioCtxRef c = None \<or> phraseBufferRef c = None \<longrightarrow> startPhase p options c = c)
   \<and> (phraseBufferRef c = None \<and> \<not> hasPhrase (state c)
        \<and> (\<forall>e\<in>set es. \<not> isDecodeResolved e) \<longrightarrow>
       \<not> hasPhrase (state (foldl (step p options) (step p options c (DecodeRejected a b)) es))
       \<and> phraseBufferRef (foldl (step p options) (step p options c (DecodeRejected a b)) es)
           = None
       \<and> startPhase p options
            (foldl (step p options) (step p options c (DecodeRejected a b)) es)
           = foldl (step p options) (step p options c (DecodeRejected a b)) es)"
proof (intro conjI impI)
  assume "audioCtxRef c = None \<or> phraseBufferRef c = None"
  then show "startPhase p options c = c" by (rule startPhase_noop)
next
  assume h: "phraseBufferRef c = None \<and> \<not> hasPhrase (state c)
             \<and> (\<forall>e\<in>set es. \<not> isDecodeResolved e)"
  let ?c = "step p options c (DecodeRejected a b)"
  have "phraseBufferRef ?c = None \<and> \<not> hasPhrase (state ?c)"
    using h by (intro no_phrase_step) simp_all
  with h have r: "phraseBufferRef (foldl (step p options) ?c es) = None
                  \<and> \<not> hasPhrase (state (foldl (step p options) ?c es))"
    by (intro no_phrase_run) simp_all
  from r show "\<not> hasPhrase (state (foldl (step p options) ?c es))" by simp
  from r show "phraseBufferRef (foldl (step p options) ?c es) = None" by simp
  from r show "startPhase p options (foldl (step p options) ?c es)
               = foldl (step p options) ?c es"
    by (simp add: startPhase_noop)
qed

text \<open>
  On \<open>browser\<close>, after one take whose decode is outstanding: the decode fails, then
  \<open>startPhase\<close> is called twice around a render.
\<close>

theorem startPhase_noop_unless_context_and_phrase_witness:
  "phraseBufferRef decodePending = None
   \<and> startPhase browser noOptions decodePending = decodePending
   \<and> \<not> hasPhrase (state decodePending)
   \<and> AwaitDecode 0 5 \<in> set (pending decodePending)
   \<and> status (state (step browser noOptions decodePending (DecodeRejected 0 5)))
       = ''Error decoding audio buffer.''
   \<and> \<not> hasPhrase (state (foldl (step browser noOptions)
         (step browser noOptions decodePending (DecodeRejected 0 5))
         [StartPhase, Render, StartPhase]))
   \<and> startPhase browser noOptions
        (foldl (step browser noOptions)
          (step browser noOptions decodePending (DecodeRejected 0 5))
          [StartPhase, Render, StartPhase])
       = foldl (step browser noOptions)
          (step browser noOptions decodePending (DecodeRejected 0 5))
          [StartPhase, Render, StartPhase]"
proof -
  have h: "phraseBufferRef decodePending = None" "\<not> hasPhrase (state decodePending)"
    "AwaitDecode 0 5 \<in> set (pending decodePending)"
    "status (state (step browser noOptions decodePending (DecodeRejected 0 5)))
       = ''Error decoding audio buffer.''"
    by (simp_all add: scenario_defs model_defs)
  have e: "\<forall>e\<in>set [StartPhase, Render, StartPhase]. \<not> isDecodeResolved e" by simp
  from h e startPhase_noop_unless_context_and_phrase
         [of decodePending browser noOptions "[StartPhase, Render, StartPhase]" 0 5]
  show ?thesis by blast
qed

lemma startPhase_restart:
  assumes "audioCtxRef c = Some a" and "phraseBufferRef c = Some b"
  shows "startPhase p options (stopPhase c) = startPhase p options c"
  using assms by (simp add: startPhase_def stopPhase_twice)

lemma startPhase_heap_at:
  assumes "audioCtxRef c = Some a" and "phraseBufferRef c = Some b"
  shows "heap (startPhase p options c) (nextHandle c) =
           Some (AudioBufferSourceNode (Some b) True (orDefault (basePlaybackRate options) 1.0)
                   (Some (currentTimeAt p (timeReads c))) False)"
    and "heap (startPhase p options c) (nextHandle c + 1) =
           Some (AudioBufferSourceNode (Some b) True (orDefault (fastPlaybackRate options) 1.003)
                   (Some (currentTimeAt p (timeReads c))) False)"
    and "heap (startPhase p options c) (nextHandle c + 2) =
           Some (GainNode (orDefault (gain options) 0.8))"
    and "heap (startPhase p options c) (nextHandle c + 3) =
           Some (StereoPannerNode (orDefault (panLeft options) (- 0.8)))"
    and "heap (startPhase p options c) (nextHandle c + 4) =
           Some (StereoPannerNode (orDefault (panRight options) 0.8))"
  using assms
  by (simp_all add: startPhase_def Let_def split_def)

lemma startPhase_heap_other:
  assumes "audioCtxRef c = Some a" and "phraseBufferRef c = Some b"
    and "h \<noteq> nextHandle c" "h \<noteq> nextHandle c + 1" "h \<noteq> nextHandle c + 2"
        "h \<noteq> nextHandle c + 3" "h \<noteq> nextHandle c + 4"
  shows "heap (startPhase p options c) h = heap (stopPhase c) h"
  using assms
  by (simp add: startPhase_def Let_def split_def)

lemma startPhase_heap:
  assumes "audioCtxRef c = Some a" and "phraseBufferRef c = Some b"
  shows "heap (startPhase p options c) =
           (heap (stopPhase c))
             (nextHandle c \<mapsto> AudioBufferSourceNode (Some b) True
                 (orDefault (basePlaybackRate options) 1.0)
                 (Some (currentTimeAt p (timeReads c))) False,
              nextHandle c + 1 \<mapsto> AudioBufferSourceNode (Some b) True
                 (orDefault (fastPlaybackRate options) 1.003)
                 (Some (currentTimeAt p (timeReads c))) False,
              nextHandle c + 2 \<mapsto> GainNode (orDefault (gain options) 0.8),
              nextHandle c + 3 \<mapsto> StereoPannerNode (orDefault (panLeft options) (- 0.8)),
              nextHandle c + 4 \<mapsto> StereoPannerNode (orDefault (panRight options) 0.8))"
proof (rule ext)
  fix h
  consider "h = nextHandle c" | "h = nextHandle c + 1" | "h = nextHandle c + 2"
    | "h = nextHandle c + 3" | "h = nextHandle c + 4"
    | "h \<noteq> nextHandle c" "h \<noteq> nextHandle c + 1" "h \<noteq> nextHandle c + 2"
      "h \<noteq> nextHandle c + 3" "h \<noteq> nextHandle c + 4"
    by blast
  then show "heap (startPhase p options c) h =
           ((heap (stopPhase c))
             (nextHandle c \<mapsto> AudioBufferSourceNode (Some b) True
                 (orDefault (basePlaybackRate options) 1.0)
                 (Some (currentTimeAt p (timeReads c))) False,
              nextHandle c + 1 \<mapsto> AudioBufferSourceNode (Some b) True
                 (orDefault (fastPlaybackRate options) 1.003)
                 (Some (currentTimeAt p (timeReads c))) False,
              nextHandle c + 2 \<mapsto> GainNode (orDefault (gain options) 0.8),
              nextHandle c + 3 \<mapsto> StereoPannerNode (orDefault (panLeft options) (- 0.8)),
              nextHandle c + 4 \<mapsto> StereoPannerNode (orDefault (panRight options) 0.8))) h"
    by cases (use startPhase_heap_at[OF assms] startPhase_heap_other[OF assms] in simp_all)
qed

lemma startPhase_conns:
  assumes "audioCtxRef c = Some a" and "phraseBufferRef c = Some b"
  shows "set (conns (startPhase p options c)) =
           set (conns (stopPhase c)) \<union>
           {(nextHandle c, Node (nextHandle c + 3)),
            (nextHandle c + 3, Node (nextHandle c + 2)),
            (nextHandle c + 1, Node (nextHandle c + 4)),
            (nextHandle c + 4, Node (nextHandle c + 2)),
            (nextHandle c + 2, Destination a)}"
  using assms
  by (auto simp add: startPhase_def Let_def split_def node_connect_def currentTime_def)

lemma startPhase_refs:
  assumes "audioCtxRef c = Some a" and "phraseBufferRef c = Some b"
  shows "source1Ref (startPhase p options c) = Some (nextHandle c)"
    "source2Ref (startPhase p options c) = Some (nextHandle c + 1)"
    "gainRef (startPhase p options c) = Some (nextHandle c + 2)"
    "nextHandle (startPhase p options c) = nextHandle c + 5"
    "timeReads (startPhase p options c) = Suc (timeReads c)"
    "isPhasePlaying (state (startPhase p options c))"
  using assms
  by (simp_all add: startPhase_def Let_def split_def)

text \<open>
  C4. With an audio context \<open>a\<close> and a stored phrase \<open>b\<close>, \<open>startPhase\<close> gives what it
  gives after \<open>stopPhase\<close>, and no connection is left that starts at a node of the old
  graph. On top of the torn-down state it constructs five objects and no others: source A
  (looping, buffer \<open>b\<close>, rate \<open>basePlaybackRate\<close>), source B (looping, buffer \<open>b\<close>, rate
  \<open>fastPlaybackRate\<close>), one gain node at \<open>gain\<close>, a panner at \<open>panLeft\<close> and a panner at
  \<open>panRight\<close>. A feeds the left panner, B the right one, both panners feed the gain node,
  which feeds the destination of \<open>a\<close>. Both sources are started at the value of the one
  read of \<open>currentTime\<close>. The three refs hold A, B and the gain node, and
  \<open>isPhasePlaying\<close> is true.
\<close>

theorem startPhase_builds_dual_loop:
  assumes "audioCtxRef c = Some a" and "phraseBufferRef c = Some b"
  shows "startPhase p options (stopPhase c) = startPhase p options c
   \<and> (\<forall>e\<in>set (conns (stopPhase c)).
         Some (fst e) \<noteq> source1Ref c \<and> Some (fst e) \<noteq> source2Ref c
         \<and> Some (fst e) \<noteq> gainRef c)
   \<and> heap (startPhase p options c) =
        (heap (stopPhase c))
          (nextHandle c \<mapsto> AudioBufferSourceNode (Some b) True
              (orDefault (basePlaybackRate options) 1.0)
              (Some (currentTimeAt p (timeReads c))) False,
           nextHandle c + 1 \<mapsto> AudioBufferSourceNode (Some b) True
              (orDefault (fastPlaybackRate options) 1.003)
              (Some (currentTimeAt p (timeReads c))) False,
           nextHandle c + 2 \<mapsto> GainNode (orDefault (gain options) 0.8),
           nextHandle c + 3 \<mapsto> StereoPannerNode (orDefault (panLeft options) (- 0.8)),
           nextHandle c + 4 \<mapsto> StereoPannerNode (orDefault (panRight options) 0.8))
   \<and> nextHandle (startPhase p options c) = nextHandle c + 5
   \<and> set (conns (startPhase p options c)) =
        set (conns (stopPhase c)) \<union>
        {(nextHandle c, Node (nextHandle c + 3)),
         (nextHandle c + 3, Node (nextHandle c + 2)),
         (nextHandle c + 1, Node (nextHandle c + 4)),
         (nextHandle c + 4, Node (nextHandle c + 2)),
         (nextHandle c + 2, Destination a)}
   \<and> timeReads (startPhase p options c) = Suc (timeReads c)
   \<and> source1Ref (startPhase p options c) = Some (nextHandle c)
   \<and> source2Ref (startPhase p options c) = Some (nextHandle c + 1)
   \<and> gainRef (startPhase p options c) = Some (nextHandle c + 2)
   \<and> isPhasePlaying (state (startPhase p options c))"
proof -
  have "\<forall>e\<in>set (conns (stopPhase c)).
         Some (fst e) \<noteq> source1Ref c \<and> Some (fst e) \<noteq> source2Ref c
         \<and> Some (fst e) \<noteq> gainRef c"
    using stopPhase_conns by blast
  then show ?thesis
    using startPhase_restart [OF assms, of p options] startPhase_heap [OF assms, of p options]
      startPhase_conns [OF assms, of p options] startPhase_refs [OF assms, of p options]
    by simp
qed

text \<open>
  On \<open>browser\<close> with the default options: the first \<open>startPhase\<close> once a phrase is
  stored, and a second \<open>startPhase\<close> while the first graph plays. The old source 4 is
  stopped and disconnected, the new sources are 9 and 10, started at the second read of
  the clock.
\<close>

theorem startPhase_builds_dual_loop_witness:
  "audioCtxRef phraseReady = Some 0
   \<and> phraseBufferRef phraseReady = Some 3
   \<and> heap phasePlaying 4 = Some (AudioBufferSourceNode (Some 3) True 1 (Some 0) False)
   \<and> heap phasePlaying 5 = Some (AudioBufferSourceNode (Some 3) True 1.003 (Some 0) False)
   \<and> heap phasePlaying 6 = Some (GainNode 0.8)
   \<and> heap phasePlaying 7 = Some (StereoPannerNode (- 0.8))
   \<and> heap phasePlaying 8 = Some (StereoPannerNode 0.8)
   \<and> nextHandle phasePlaying = 9
   \<and> set (conns phasePlaying)
       = {(4, Node 7), (7, Node 6), (5, Node 8), (8, Node 6), (6, Destination 0)}
   \<and> timeReads phasePlaying = 1
   \<and> isPhasePlaying (state phasePlaying)
   \<and> audioCtxRef phasePlaying = Some 0
   \<and> phraseBufferRef phasePlaying = Some 3
   \<and> source1Ref phasePlaying = Some 4
   \<and> (4, Node 7) \<notin> set (conns (stopPhase phasePlaying))
   \<and> heap (startPhase browser noOptions phasePlaying) 4
       = Some (AudioBufferSourceNode (Some 3) True 1 (Some 0) True)
   \<and> heap (startPhase browser noOptions phasePlaying) 9
       = Some (AudioBufferSourceNode (Some 3) True 1 (Some 1) False)
   \<and> heap (startPhase browser noOptions phasePlaying) 10
       = Some (AudioBufferSourceNode (Some 3) True 1.003 (Some 1) False)
   \<and> source1Ref (startPhase browser noOptions phasePlaying) = Some 9
   \<and> source2Ref (startPhase browser noOptions phasePlaying) = Some 10
   \<and> gainRef (startPhase browser noOptions phasePlaying) = Some 11
   \<and> nextHandle (startPhase browser noOptions phasePlaying) = 14"
proof -
  have h: "audioCtxRef phraseReady = Some 0" "phraseBufferRef phraseReady = Some 3"
    and n: "nextHandle phraseReady = 4" "timeReads phraseReady = 0"
    and g: "source1Ref phraseReady = None" "source2Ref phraseReady = None"
      "gainRef phraseReady = None" "conns phraseReady = []"
    by (simp_all add: scenario_defs model_defs)
  have t: "currentTimeAt browser 0 = 0" "currentTimeAt browser 1 = 1"
    by (simp_all add: browser_def)
  have c0: "conns (stopPhase phraseReady) = []"
    using g by (simp add: stopPhase_no_graph)
  note first = startPhase_builds_dual_loop [OF h, of browser noOptions, folded phasePlaying_def]
  have h': "audioCtxRef phasePlaying = Some 0" "phraseBufferRef phasePlaying = Some 3"
    using h by (simp_all add: phasePlaying_def startPhase_frame)
  have n': "nextHandle phasePlaying = 9" "timeReads phasePlaying = 1"
    "source1Ref phasePlaying = Some 4" "source2Ref phasePlaying = Some 5"
    "gainRef phasePlaying = Some 6"
    using first n by simp_all
  have old: "heap phasePlaying 4 = Some (AudioBufferSourceNode (Some 3) True 1 (Some 0) False)"
    "heap phasePlaying 5 = Some (AudioBufferSourceNode (Some 3) True 1.003 (Some 0) False)"
    using first n t by (simp_all add: orDefault_def noOptions_def)
  have stopped: "heap (stopPhase phasePlaying) 4
                 = Some (AudioBufferSourceNode (Some 3) True 1 (Some 0) True)"
    using n' old by (simp add: stopPhase_def Let_def ignoring_def source_stop_def)
  note second = startPhase_builds_dual_loop [OF h', of browser noOptions]
  have gone: "(4, Node 7) \<notin> set (conns (stopPhase phasePlaying))"
    using second n' by fastforce
  from first second h h' n n' t c0 stopped gone
  show ?thesis by (simp add: orDefault_def noOptions_def)
qed


section \<open>enable\<close>

lemma idle_init: "\<not> isSupported (getInitialState p) \<Longrightarrow> idle (usePhaseLooper p)"
  by (simp add: idle_def usePhaseLooper_def getInitialState_def)

lemma idle_step:
  assumes "idle c" and "\<not> isSupported (getInitialState p)"
  shows "idle (step p options c e)"
proof (cases e)
  case Enable
  with assms show ?thesis by (simp add: step_def idle_def enable_def)
next
  case StartRecording
  with assms show ?thesis by (simp add: step_def idle_def startRecording_def)
next
  case StopRecording
  with assms show ?thesis by (simp add: step_def idle_def stopRecording_def)
next
  case StartPhase
  with assms show ?thesis by (simp add: step_def idle_def startPhase_noop)
next
  case StopPhase
  with assms show ?thesis by (simp add: step_def idle_def stopPhase_no_graph)
next
  case Reset
  with assms show ?thesis
    by (simp add: step_def idle_def reset_def stopPhase_no_graph getInitialState_def)
next
  case Render
  with assms show ?thesis by (simp add: step_def idle_def render_def)
qed (insert assms, simp_all add: step_def idle_def)

lemma idle_run:
  assumes "idle c" and "\<not> isSupported (getInitialState p)"
  shows "idle (foldl (step p options) c es)"
  using assms by (induction es arbitrary: c) (simp_all add: idle_step)

text \<open>
  C2. On a platform whose capability check fails, after every sequence of events (intents,
  renders and completions) \<open>isEnabled\<close> is false in the state cell and in the rendered
  snapshot, nothing has been constructed (the heap is empty, no handle was handed out),
  every resource ref is empty and nothing is outstanding.
\<close>

theorem unsupported_platform_constructs_nothing:
  assumes "\<not> isSupported (getInitialState p)"
  shows "\<not> isEnabled (state (run p options es))
   \<and> \<not> isEnabled (snapshot (run p options es))
   \<and> heap (run p options es) = (\<lambda>h. None)
   \<and> nextHandle (run p options es) = 0
   \<and> audioCtxRef (run p options es) = None
   \<and> streamRef (run p options es) = None
   \<and> recorderRef (run p options es) = None
   \<and> phraseBufferRef (run p options es) = None
   \<and> source1Ref (run p options es) = None
   \<and> source2Ref (run p options es) = None
   \<and> gainRef (run p options es) = None
   \<and> pending (run p options es) = []"
proof -
  have "idle (run p options es)"
    unfolding run_def using assms by (intro idle_run idle_init)
  then show ?thesis by (simp add: idle_def)
qed

text \<open>On \<open>legacyBrowser\<close>, which has no MediaRecorder, with each intent issued.\<close>

theorem unsupported_platform_constructs_nothing_witness:
  "\<not> isSupported (getInitialState legacyBrowser)
   \<and> \<not> isEnabled (state (run legacyBrowser noOptions
        [Enable, Render, StartRecording, StopRecording, StartPhase, StopPhase, Reset, Enable]))
   \<and> nextHandle (run legacyBrowser noOptions
        [Enable, Render, StartRecording, StopRecording, StartPhase, StopPhase, Reset, Enable]) = 0
   \<and> heap (run legacyBrowser noOptions
        [Enable, Render, StartRecording, StopRecording, StartPhase, StopPhase, Reset, Enable])
       = (\<lambda>h. None)
   \<and> status (state (run legacyBrowser noOptions [Enable]))
       = ''Web Audio or MediaRecorder not supported in this browser.''"
proof -
  have h: "\<not> isSupported (getInitialState legacyBrowser)"
    by (simp add: getInitialState_def legacyBrowser_def browser_def)
  have s: "status (state (run legacyBrowser noOptions [Enable]))
       = ''Web Audio or MediaRecorder not supported in this browser.''"
    by (simp add: scenario_defs model_defs)
  from unsupported_platform_constructs_nothing [OF h, of noOptions
      "[Enable, Render, StartRecording, StopRecording, StartPhase, StopPhase, Reset, Enable]"] h s
  show ?thesis by simp
qed


text \<open>
  C6. On \<open>browser\<close>, \<open>enable\<close> called twice before a render: the first call sets
  \<open>isEnabling\<close> in the state cell and requests the microphone; the second call reads the
  same rendered state as the first (the guard of line 90 tests the state that the closure
  captured), passes the guard and requests the microphone again. Both requests are
  granted: two streams and two recorders are constructed, both streams are live, and the
  refs hold the second pair. With a render after every event, a \<open>reset\<close> and a second
  \<open>enable\<close> made while the request of the first is outstanding give the same: the first
  request is not withdrawn, and streams 2 and 4 are both live.
\<close>

theorem second_enable_before_render_acquires_again:
  "isEnabling (state (run browser noOptions [Enable]))
   \<and> pending (run browser noOptions [Enable]) = [AwaitUserMedia]
   \<and> pending (run browser noOptions [Enable, Enable]) = [AwaitUserMedia, AwaitUserMedia]
   \<and> heap doubleEnable 1 = Some (MediaStream True)
   \<and> heap doubleEnable 2 = Some (MediaRecorder 1 Inactive)
   \<and> heap doubleEnable 3 = Some (MediaStream True)
   \<and> heap doubleEnable 4 = Some (MediaRecorder 3 Inactive)
   \<and> streamRef doubleEnable = Some 3
   \<and> recorderRef doubleEnable = Some 4
   \<and> heap resetDuringEnable 2 = Some (MediaStream True)
   \<and> heap resetDuringEnable 3 = Some (MediaRecorder 2 Inactive)
   \<and> heap resetDuringEnable 4 = Some (MediaStream True)
   \<and> heap resetDuringEnable 5 = Some (MediaRecorder 4 Inactive)
   \<and> streamRef resetDuringEnable = Some 4
   \<and> recorderRef resetDuringEnable = Some 5"
  by (simp add: scenario_defs model_defs)

text \<open>Where the rendered state shows one of the two flags, the guard returns at once.\<close>

lemma enable_guard:
  "isSupported (snapshot c) \<Longrightarrow> isEnabled (snapshot c) \<or> isEnabling (snapshot c) \<Longrightarrow>
   enable p c = c"
  by (simp add: enable_def)

text \<open>
  C7 as stated fails when the recorder's constructor raises: the stream granted just
  before stays in \<open>streamRef\<close> with its tracks live, and a retried \<open>enable\<close> acquires a
  second stream while the first is still live.
\<close>

theorem failed_recorder_construction_keeps_stream:
  "isEnabling (state (run browser noOptions [Enable]))
   \<and> pending (run browser noOptions [Enable]) = [AwaitUserMedia]
   \<and> status (state recorderFailed) = ''Error accessing microphone. Check permissions.''
   \<and> recorderRef recorderFailed = None
   \<and> streamRef recorderFailed = Some 1
   \<and> heap recorderFailed 1 = Some (MediaStream True)
   \<and> streamRef retried = Some 2
   \<and> heap retried 1 = Some (MediaStream True)
   \<and> heap retried 2 = Some (MediaStream True)"
  by (simp add: scenario_defs model_defs)

lemma enable_failure_react:
  assumes "isEnableFailure e"
  shows "\<not> isEnabling (state (react p options e c))"
    "isEnabled (state (react p options e c)) = isEnabled (state c)"
    "status (state (react p options e c)) = ''Error accessing microphone. Check permissions.''"
    "recorderRef (react p options e c) = recorderRef c"
    "audioCtxRef (react p options e c) = audioCtxRef c"
    "e \<noteq> StreamGranted False \<longrightarrow>
       streamRef (react p options e c) = streamRef c \<and> heap (react p options e c) = heap c
       \<and> nextHandle (react p options e c) = nextHandle c"
  using assms
  by (cases e; simp add: enable_catch_def enable_granted_def Let_def split_def)+

text \<open>
  C7, amended. When the rejected resume of the context, the rejected microphone request
  or the raising constructor of the recorder completes an \<open>enable\<close> that is under way,
  the handling of the failure clears \<open>isEnabling\<close>, leaves \<open>isEnabled\<close> as it was, sets
  the status to the microphone error message, and leaves the recorder ref and the context
  ref as they were. When the failure is the resume or the microphone request, the handling
  also leaves the stream ref and the heap as they were and hands out no handle (what the
  call constructed before its first await, the audio context, stays). If \<open>isSupported\<close>
  was true and \<open>isEnabled\<close> false when the failure arrived, then \<open>enable\<close> called after
  the next render sets \<open>isEnabling\<close> and adds one outstanding request.
\<close>

theorem enable_failure_clears_enabling:
  assumes "isEnableFailure e" and "outstanding c e"
  shows "\<not> isEnabling (state (step p options c e))
   \<and> isEnabled (state (step p options c e)) = isEnabled (state c)
   \<and> status (state (step p options c e)) = ''Error accessing microphone. Check permissions.''
   \<and> recorderRef (step p options c e) = recorderRef c
   \<and> audioCtxRef (step p options c e) = audioCtxRef c
   \<and> (e \<noteq> StreamGranted False \<longrightarrow>
        streamRef (step p options c e) = streamRef c
        \<and> heap (step p options c e) = heap c
        \<and> nextHandle (step p options c e) = nextHandle c)
   \<and> (isSupported (state c) \<and> \<not> isEnabled (state c) \<longrightarrow>
        isEnabling (state (enable p (render (step p options c e))))
        \<and> length (pending (enable p (render (step p options c e))))
            = Suc (length (pending (step p options c e))))"
proof -
  from assms obtain t where t: "awaited e = Some t" "t \<in> set (pending c)"
    by (auto simp add: outstanding_def split: option.splits)
  let ?c = "c\<lparr>pending := remove1 t (pending c)\<rparr>"
  have s: "step p options c e = react p options e ?c"
    using t by (simp add: step_def)
  have sup: "isSupported (state (react p options e ?c)) = isSupported (state c)"
    using assms(1) by (cases e; simp add: enable_catch_def enable_granted_def Let_def split_def)
  have retry: "isSupported (state c) \<and> \<not> isEnabled (state c) \<longrightarrow>
        isEnabling (state (enable p (render (react p options e ?c))))
        \<and> length (pending (enable p (render (react p options e ?c))))
            = Suc (length (pending (react p options e ?c)))"
    using enable_failure_react(1,2)[OF assms(1), of p options ?c] sup
    by (auto simp add: enable_def enable_getUserMedia_def Let_def split_def render_def split: option.splits)
  show ?thesis
    unfolding s using enable_failure_react[OF assms(1), of p options ?c] retry by simp
qed

text \<open>
  The three failures: on \<open>gestureBrowser\<close> the resume of the suspended context is
  rejected; on \<open>browser\<close> the microphone request is denied; on \<open>browser\<close> the
  recorder's constructor raises. Each time a retried \<open>enable\<close> sets \<open>isEnabling\<close> again.
\<close>

theorem enable_failure_clears_enabling_witness:
  "outstanding (run gestureBrowser noOptions [Enable]) (ResumeRejected 0)
   \<and> isEnabling (state (run gestureBrowser noOptions [Enable]))
   \<and> \<not> isEnabling (state (run gestureBrowser noOptions [Enable, ResumeRejected 0]))
   \<and> nextHandle (run gestureBrowser noOptions [Enable, ResumeRejected 0]) = 1
   \<and> isEnabling (state (enable gestureBrowser
         (render (run gestureBrowser noOptions [Enable, ResumeRejected 0]))))
   \<and> outstanding (run browser noOptions [Enable]) StreamDenied
   \<and> isEnabling (state (run browser noOptions [Enable]))
   \<and> \<not> isEnabling (state (run browser noOptions [Enable, StreamDenied]))
   \<and> status (state (run browser noOptions [Enable, StreamDenied]))
       = ''Error accessing microphone. Check permissions.''
   \<and> streamRef (run browser noOptions [Enable, StreamDenied]) = None
   \<and> recorderRef (run browser noOptions [Enable, StreamDenied]) = None
   \<and> isEnabling (state (enable browser (render (run browser noOptions [Enable, StreamDenied]))))
   \<and> outstanding (run browser noOptions [Enable]) (StreamGranted False)
   \<and> \<not> isEnabling (state recorderFailed)
   \<and> isEnabled (state recorderFailed) = False
   \<and> recorderRef recorderFailed = None
   \<and> isEnabling (state (enable browser (render recorderFailed)))"
proof -
  have s: "run gestureBrowser noOptions [Enable, ResumeRejected 0]
           = step gestureBrowser noOptions (run gestureBrowser noOptions [Enable])
               (ResumeRejected 0)"
    "run browser noOptions [Enable, StreamDenied]
           = step browser noOptions (run browser noOptions [Enable]) StreamDenied"
    "recorderFailed
           = step browser noOptions (run browser noOptions [Enable]) (StreamGranted False)"
    by (simp_all add: run_def recorderFailed_def)
  have h: "outstanding (run gestureBrowser noOptions [Enable]) (ResumeRejected 0)"
    "outstanding (run browser noOptions [Enable]) StreamDenied"
    "outstanding (run browser noOptions [Enable]) (StreamGranted False)"
    and b: "isEnabling (state (run gestureBrowser noOptions [Enable]))"
    "isSupported (state (run gestureBrowser noOptions [Enable]))"
    "\<not> isEnabled (state (run gestureBrowser noOptions [Enable]))"
    "nextHandle (run gestureBrowser noOptions [Enable]) = 1"
    "isEnabling (state (run browser noOptions [Enable]))"
    "isSupported (state (run browser noOptions [Enable]))"
    "\<not> isEnabled (state (run browser noOptions [Enable]))"
    "streamRef (run browser noOptions [Enable]) = None"
    "recorderRef (run browser noOptions [Enable]) = None"
    by (simp_all add: outstanding_def scenario_defs model_defs)
  from enable_failure_clears_enabling
         [of "ResumeRejected 0" "run gestureBrowser noOptions [Enable]" gestureBrowser noOptions]
       enable_failure_clears_enabling
         [of StreamDenied "run browser noOptions [Enable]" browser noOptions]
       enable_failure_clears_enabling
         [of "StreamGranted False" "run browser noOptions [Enable]" browser noOptions]
       h b
  show ?thesis unfolding s by simp
qed

section \<open>Decode and reset\<close>

text \<open>
  C8. On \<open>browser\<close>, after one take the decode is outstanding. \<open>reset\<close> then restores the
  initial state and empties the context and phrase refs, but the decode stays outstanding;
  when it succeeds, \<open>onstop\<close> stores the buffer and sets \<open>hasPhrase\<close>: the controller has a
  phrase although it is not enabled and has no context. The test of \<open>audioCtxRef\<close> in
  \<open>onstop\<close> is made before the decode is issued and not after it.
\<close>

theorem decode_resolved_after_reset_stores_phrase:
  "AwaitDecode 0 5 \<in> set (pending decodePending)
   \<and> hasPhrase (state (step browser noOptions decodePending Reset)) = False
   \<and> audioCtxRef (step browser noOptions decodePending Reset) = None
   \<and> phraseBufferRef (step browser noOptions decodePending Reset) = None
   \<and> AwaitDecode 0 5 \<in> set (pending (step browser noOptions decodePending Reset))
   \<and> hasPhrase (state staleDecode)
   \<and> phraseBufferRef staleDecode = Some 3
   \<and> heap staleDecode 3 = Some (AudioBuffer ''1.00'')
   \<and> audioCtxRef staleDecode = None
   \<and> isEnabled (state staleDecode) = False"
  by (simp add: scenario_defs model_defs)


section \<open>Recording and playing\<close>

text \<open>
  C9 as stated fails: once a phrase is stored and its phase loop plays, \<open>startRecording\<close>
  starts the recorder (it tests neither \<open>hasPhrase\<close> nor \<open>isPhasePlaying\<close>), and the
  recorder's start event sets \<open>isRecording\<close> while \<open>isPhasePlaying\<close> is true.
\<close>

theorem recording_over_playing_phase:
  "hasPhrase (state phraseReady)
   \<and> isPhasePlaying (state (step browser noOptions phraseReady StartPhase))
   \<and> isRecording (state overdub)
   \<and> isPhasePlaying (state overdub)"
proof -
  let ?c1 = "startPhase browser noOptions phraseReady"
  let ?c2 = "startRecording ?c1"
  have r: "audioCtxRef phraseReady = Some 0" "phraseBufferRef phraseReady = Some 3"
    "recorderRef phraseReady = Some 2" "heap phraseReady 2 = Some (MediaRecorder 1 Inactive)"
    "pending phraseReady = []" "source1Ref phraseReady = None" "source2Ref phraseReady = None"
    "nextHandle phraseReady = 4" "hasPhrase (state phraseReady)"
    by (simp_all add: scenario_defs model_defs)
  have o: "overdub = step browser noOptions
             (step browser noOptions (step browser noOptions phraseReady StartPhase)
                StartRecording) RecorderStarted"
    by (simp add: overdub_def phraseReady_def run_def)
  have playing: "isPhasePlaying (state ?c1)"
    using startPhase_refs(6) [OF r(1) r(2)] .
  have "heap ?c1 2 = heap (stopPhase phraseReady) 2"
    using r(8) by (intro startPhase_heap_other [OF r(1) r(2)]) simp_all
  then have h: "heap ?c1 2 = Some (MediaRecorder 1 Inactive)"
    using r by (simp add: stopPhase_heap_no_graph)
  have c2: "?c2 = ?c1\<lparr>heap := (heap ?c1)(2 \<mapsto> MediaRecorder 1 Recording),
                        pending := [StartEvent]\<rparr>"
    using h r by (simp add: startRecording_def recorderState_def recorder_start_def
        ignoring_def startPhase_frame)
  have eq: "overdub = onstart (?c2\<lparr>pending := []\<rparr>)"
    unfolding o by (simp add: step_def c2)
  have "isRecording (state overdub) \<and> isPhasePlaying (state overdub)"
    unfolding eq using playing by (simp add: onstart_def c2)
  with r(9) playing show ?thesis by (simp add: step_def)
qed


lemma settled_init: "settled (usePhaseLooper p)"
  by (simp add: settled_def usePhaseLooper_def getInitialState_def)

lemma pending_single: "length xs \<le> 1 \<Longrightarrow> t \<in> set xs \<Longrightarrow> xs = [t]"
  by (cases xs) auto

lemma settled_intent:
  assumes "settled c" and "pending c = []" and "e = StartRecording \<longrightarrow> \<not> hasPhrase (state c)"
    and "isIntent e"
  shows "settled (react p options e c)"
proof (cases e)
  case Enable
  with assms show ?thesis
    by (simp add: settled_def enable_def enable_getUserMedia_def Let_def split_def split: option.splits)
next
  case StartRecording
  with assms show ?thesis
    by (auto simp add: settled_def startRecording_def ignoring_def recorder_start_def
        split: option.splits obj.splits RecordingState.splits)
next
  case StopRecording
  with assms show ?thesis
    by (auto simp add: settled_def stopRecording_def ignoring_def recorder_stop_def
        split: option.splits obj.splits RecordingState.splits)
next
  case StartPhase
  show ?thesis
  proof (cases "audioCtxRef c = None \<or> phraseBufferRef c = None")
    case True
    with assms StartPhase show ?thesis by (simp add: startPhase_noop)
  next
    case False
    with assms StartPhase show ?thesis
      by (auto simp add: settled_def startPhase_def Let_def split_def stopPhase_state)
  qed
next
  case StopPhase
  with assms show ?thesis by (simp add: settled_def stopPhase_state)
next
  case Reset
  with assms show ?thesis
    by (auto simp add: settled_def reset_def Let_def getInitialState_def ignoring_def recorder_stop_def
        split: option.splits obj.splits RecordingState.splits)
qed (insert assms, simp_all)

lemma settled_callback:
  assumes "settled c" and "awaited e = Some t" and "t \<in> set (pending c)"
  shows "settled (react p options e (c\<lparr>pending := remove1 t (pending c)\<rparr>))"
proof -
  from assms have one: "pending c = [t]"
    by (simp add: settled_def pending_single)
  show ?thesis
  proof (cases e)
    case (ResumeResolved a)
    with assms one show ?thesis
      by (simp add: settled_def enable_getUserMedia_def)
  next
    case (ResumeRejected a)
    with assms one show ?thesis by (simp add: settled_def enable_catch_def)
  next
    case (StreamGranted ok)
    with assms one show ?thesis
      by (simp add: settled_def enable_granted_def enable_catch_def Let_def split_def)
  next
    case StreamDenied
    with assms one show ?thesis by (simp add: settled_def enable_catch_def)
  next
    case RecorderStarted
    with assms one show ?thesis by (auto simp add: settled_def onstart_def)
  next
    case (RecorderStopped n)
    with assms one show ?thesis
      by (auto simp add: settled_def onstop_def ondataavailable_def Let_def)
  next
    case (ArrayBufferResolved b)
    with assms one show ?thesis
      by (auto simp add: settled_def onstop_decode_def deref_def onstop_catch_def split: option.splits)
  next
    case (ArrayBufferRejected b)
    with assms one show ?thesis by (auto simp add: settled_def onstop_catch_def)
  next
    case (DecodeResolved a b d)
    with assms one show ?thesis
      by (auto simp add: settled_def onstop_store_def Let_def split_def)
  next
    case (DecodeRejected a b)
    with assms one show ?thesis by (auto simp add: settled_def onstop_catch_def)
  qed (insert assms, simp_all)
qed

lemma settled_step:
  assumes "settled c" and "permitted c e"
  shows "settled (step p options c e)"
proof (cases "awaited e")
  case (Some t)
  with assms show ?thesis by (simp add: step_def settled_callback)
next
  case None
  show ?thesis
  proof (cases "e = Render")
    case True
    with assms show ?thesis by (simp add: step_def settled_def)
  next
    case False
    with None have "isIntent e" by (cases e) simp_all
    with assms None show ?thesis
      by (simp add: step_def permitted_def settled_intent)
  qed
qed

lemma settled_run:
  "settled c \<Longrightarrow> sequential p options c es \<Longrightarrow> settled (foldl (step p options) c es)"
  by (induction es arbitrary: c) (simp_all add: settled_step)

lemma settled_exclusive: "settled c \<Longrightarrow> \<not> (isRecording (state c) \<and> isPhasePlaying (state c))"
  by (auto simp add: settled_def)

text \<open>
  C9, amended. In every state reached by a sequence of events in which each intent is
  issued only when nothing is outstanding and \<open>startRecording\<close> is issued only while
  \<open>hasPhrase\<close> is false, \<open>isRecording\<close> and \<open>isPhasePlaying\<close> are not both true.
\<close>

theorem sequential_use_never_records_while_playing:
  assumes "sequential p options (usePhaseLooper p) es"
  shows "\<not> (isRecording (state (run p options es)) \<and> isPhasePlaying (state (run p options es)))"
proof -
  have "settled (run p options es)"
    unfolding run_def using assms by (intro settled_run settled_init)
  then show ?thesis by (rule settled_exclusive)
qed

text \<open>On \<open>browser\<close>: one take in sequence, then \<open>startPhase\<close>.\<close>

theorem sequential_use_never_records_while_playing_witness:
  "sequential browser noOptions (usePhaseLooper browser)
     (recordTake @ [DecodeResolved 0 5 ''1.00'', StartPhase])
   \<and> isPhasePlaying
        (state (run browser noOptions (recordTake @ [DecodeResolved 0 5 ''1.00'', StartPhase])))
   \<and> \<not> (isRecording
        (state (run browser noOptions (recordTake @ [DecodeResolved 0 5 ''1.00'', StartPhase])))
      \<and> isPhasePlaying
        (state (run browser noOptions (recordTake @ [DecodeResolved 0 5 ''1.00'', StartPhase]))))"
proof -
  have h: "sequential browser noOptions (usePhaseLooper browser)
     (recordTake @ [DecodeResolved 0 5 ''1.00'', StartPhase])"
    by (simp add: permitted_def scenario_defs model_defs)
  have r: "audioCtxRef phraseReady = Some 0" "phraseBufferRef phraseReady = Some 3"
    by (simp_all add: scenario_defs model_defs)
  have "run browser noOptions (recordTake @ [DecodeResolved 0 5 ''1.00'', StartPhase])
        = startPhase browser noOptions phraseReady"
    by (simp add: phraseReady_def run_def step_def)
  then have p: "isPhasePlaying
        (state (run browser noOptions (recordTake @ [DecodeResolved 0 5 ''1.00'', StartPhase])))"
    using startPhase_refs(6) [OF r, of browser noOptions] by simp
  from sequential_use_never_records_while_playing [OF h] h p
  show ?thesis by simp
qed

end
